theory Spec2Isabelle
  imports Main "HOL-Library.Sublist"
begin

section \<open>Go library functions used by package machine\<close>

text \<open>
  Go strings are byte sequences; \<open>string\<close> (a list of 8-bit characters) models them,
  and \<open>length\<close> is Go's \<open>len\<close>. A Go \<open>error\<close> value is modelled by its message;
  \<open>nil\<close> is \<open>None\<close>. \<open>fmt.Errorf\<close> with \<open>%w\<close> prints the wrapped error's message.
\<close>

type_synonym error = string

subsection \<open>fmt.Sprintf with the verb \<open>%d\<close>\<close>

text \<open>
  Every integer that the package formats is a slice index, a counter that starts at 0
  or a byte count, so it is never negative and far below \<open>2^63\<close>: \<open>nat\<close> models it.
\<close>

definition digit :: "nat \<Rightarrow> char" where
  "digit n = ''0123456789'' ! n"

fun itoa :: "nat \<Rightarrow> string" where
  "itoa n = (if n < 10 then [digit n] else itoa (n div 10) @ [digit (n mod 10)])"

declare itoa.simps [simp del]

subsection \<open>strings.Split and strings.Join with a one-byte separator\<close>

fun strings_Split :: "string \<Rightarrow> char \<Rightarrow> string list" where
  "strings_Split [] sep = [[]]"
| "strings_Split (c # cs) sep =
     (if c = sep then [] # strings_Split cs sep
      else (case strings_Split cs sep of
              [] \<Rightarrow> [[c]]
            | w # ws \<Rightarrow> (c # w) # ws))"

fun strings_Join :: "string list \<Rightarrow> string \<Rightarrow> string" where
  "strings_Join [] sep = []"
| "strings_Join [e] sep = e"
| "strings_Join (e # es) sep = e @ sep @ strings_Join es sep"

subsection \<open>path.Clean and path.Join\<close>

text \<open>
  \<open>path.Clean\<close> works on the slash-separated elements of a path: it drops empty
  elements and \<open>.\<close>, lets \<open>..\<close> cancel the element before it, drops \<open>..\<close> at the
  start of a rooted path and keeps it at the start of a relative one; the empty result
  is \<open>.\<close>. \<open>cleanElems\<close> carries the elements written so far.
  On Unix \<open>filepath.Join\<close> is \<open>path.Join\<close>.
\<close>

fun cleanElems :: "bool \<Rightarrow> string list \<Rightarrow> string list \<Rightarrow> string list" where
  "cleanElems rooted out [] = out"
| "cleanElems rooted out (e # es) =
     (if e = [] \<or> e = ''.'' then cleanElems rooted out es
      else if e = ''..'' then
        (if out \<noteq> [] \<and> last out \<noteq> ''..'' then cleanElems rooted (butlast out) es
         else if rooted then cleanElems rooted out es
         else cleanElems rooted (out @ [''..'']) es)
      else cleanElems rooted (out @ [e]) es)"

definition path_Clean :: "string \<Rightarrow> string" where
  "path_Clean p =
     (if p = [] then ''.''
      else
        (let rooted = (hd p = CHR ''/'');
             out = cleanElems rooted [] (strings_Split p (CHR ''/''));
             r = (if rooted then ''/'' else []) @ strings_Join out ''/''
         in if r = [] then ''.'' else r))"

definition path_Join :: "string list \<Rightarrow> string" where
  "path_Join elem =
     (case dropWhile (\<lambda>e. e = []) elem of
        [] \<Rightarrow> []
      | e # es \<Rightarrow> path_Clean (strings_Join (e # es) ''/''))"

definition filepath_Join :: "string list \<Rightarrow> string" where
  "filepath_Join elem = path_Join elem"

section \<open>The machine configuration\<close>

text \<open>
  \<open>types.MachineConfig\<close> is declared in package \<open>types\<close>; these are the fields that
  \<open>qemu.go\<close> reads. \<open>SSH_Port\<close> is \<open>SSH.Port\<close>. The failure callback \<open>OnFailure\<close> is
  only handed to \<open>monitor\<close> and is left out.
\<close>

record MachineConfig =
  ID :: string
  Memory :: string
  CPU :: string
  CPUType :: string
  Arch :: string
  Drives :: "string list"
  DriveSizes :: "string list"
  AutoDriveSetup :: bool
  ISO :: string
  DataSource :: string
  DisableDefaultNetworking :: bool
  SSH_Port :: string
  Display :: string
  Args :: "string list"
  StateDir :: string
  Process :: string

section \<open>genDrives\<close>

text \<open>
  The closure \<open>genDrives\<close> of \<open>Create\<close> reads the captured variable \<open>userDrives\<close>;
  here it is the first argument. \<open>userDiskLoop\<close> is the \<open>for i, d := range userDrives\<close>
  loop with its variables \<open>i\<close>, \<open>allDrives\<close> and \<open>id\<close>; it returns the last two.
\<close>

fun userDiskLoop :: "nat \<Rightarrow> string list \<Rightarrow> string list \<Rightarrow> nat \<Rightarrow> string list \<times> nat" where
  "userDiskLoop i [] allDrives ident = (allDrives, ident)"
| "userDiskLoop i (d # ds) allDrives ident =
     (let driveID = ''drv'' @ itoa ident
      in userDiskLoop (i + 1) ds
           (allDrives @
              [''-drive'', ''if=none,id='' @ driveID @ '',file='' @ d,
               ''-device'', ''virtio-blk-pci,drive='' @ driveID @ '',bootindex='' @ itoa (i + 1)])
           (ident + 1))"

definition addSCSIIfNeeded :: "string list \<times> bool \<Rightarrow> string list \<times> bool" where
  "addSCSIIfNeeded st =
     (case st of (allDrives, scsiAdded) \<Rightarrow>
        if \<not> scsiAdded then (allDrives @ [''-device'', ''virtio-scsi-pci,id=scsi0''], True)
        else (allDrives, scsiAdded))"

definition genDrives :: "string list \<Rightarrow> MachineConfig \<Rightarrow> string list" where
  "genDrives userDrives m =
     (case userDiskLoop 0 userDrives [] 0 of (allDrives0, id0) \<Rightarrow>
      let scsiAdded0 = False;
          (allDrives1, scsiAdded1, id1) =
            (if ISO m \<noteq> [] then
               (case addSCSIIfNeeded (allDrives0, scsiAdded0) of (a, sc) \<Rightarrow>
                  let driveID = ''drv'' @ itoa id0
                  in (a @ [''-drive'', ''if=none,id='' @ driveID @ '',media=cdrom,file='' @ ISO m,
                           ''-device'', ''scsi-cd,drive='' @ driveID @ '',bus=scsi0.0,bootindex=50''],
                      sc, id0 + 1))
             else (allDrives0, scsiAdded0, id0));
          (allDrives2, scsiAdded2, id2) =
            (if DataSource m \<noteq> [] then
               (case addSCSIIfNeeded (allDrives1, scsiAdded1) of (a, sc) \<Rightarrow>
                  let driveID = ''drv'' @ itoa id1
                  in (a @ [''-drive'', ''if=none,id='' @ driveID @ '',media=cdrom,file='' @ DataSource m,
                           ''-device'', ''scsi-cd,drive='' @ driveID @ '',bus=scsi0.0,bootindex=60''],
                      sc, id1 + 1))
             else (allDrives1, scsiAdded1, id1))
      in allDrives2)"

section \<open>Reading a token list\<close>

text \<open>
  The token list is a sequence of flag/value pairs. \<open>bootindexOf\<close> reads the decimal
  number that follows \<open>bootindex=\<close> at the end of a device description, and
  \<open>bootPriorities\<close> lists these numbers for the \<open>-device\<close> values in order.
\<close>

fun tokenPairs :: "string list \<Rightarrow> (string \<times> string) list" where
  "tokenPairs (f # v # rest) = (f, v) # tokenPairs rest"
| "tokenPairs _ = []"

definition isDigit :: "char \<Rightarrow> bool" where
  "isDigit c = (c \<in> set ''0123456789'')"

definition digitVal :: "char \<Rightarrow> nat" where
  "digitVal c = of_char c - 48"

definition atoi :: "string \<Rightarrow> nat" where
  "atoi ds = foldl (\<lambda>a c. 10 * a + digitVal c) 0 ds"

definition bootindexOf :: "string \<Rightarrow> nat option" where
  "bootindexOf tok =
     (let ds = rev (takeWhile isDigit (rev tok));
          pre = take (length tok - length ds) tok
      in if ds \<noteq> [] \<and> suffix ''bootindex='' pre then Some (atoi ds) else None)"

definition deviceValues :: "string list \<Rightarrow> string list" where
  "deviceValues toks = map snd (filter (\<lambda>p. fst p = ''-device'') (tokenPairs toks))"

definition bootPriorities :: "string list \<Rightarrow> nat list" where
  "bootPriorities toks = List.map_filter bootindexOf (deviceValues toks)"

definition scsiController :: string where
  "scsiController = ''virtio-scsi-pci,id=scsi0''"

section \<open>The operating system and the process manager\<close>

text \<open>
  \<open>qemu.go\<close> calls the Go standard library (\<open>os\<close>, \<open>os/exec\<close>, \<open>net\<close>), the shell
  helper \<open>utils.SH\<close>, the function \<open>monitor\<close> of its own package and the process manager
  \<open>go-processmanager\<close>. None of them is part of the file. Each call is an event, and what
  it returns and does is given by a system \<open>sys\<close> acting on a world \<open>'w\<close>. The state of
  a run is the log of the calls made so far and the world.
\<close>

record proc_config =
  pName :: string
  pArgs :: "string list"
  pStateDir :: string

datatype proc_option = WithName string | WithArgs "string list" | WithStateDir string

text \<open>
  \<open>process.WithArgs\<close> appends to the arguments collected so far: \<open>Create\<close> gives the
  options and the drive tokens in two calls, and logs the arguments as
  \<open>append(opts, genDrives(...)...)\<close>.
\<close>

fun applyOption :: "proc_config \<Rightarrow> proc_option \<Rightarrow> proc_config" where
  "applyOption c (WithName n) = c\<lparr>pName := n\<rparr>"
| "applyOption c (WithArgs a) = c\<lparr>pArgs := pArgs c @ a\<rparr>"
| "applyOption c (WithStateDir d) = c\<lparr>pStateDir := d\<rparr>"

definition process_New :: "proc_option list \<Rightarrow> proc_config" where
  "process_New opts = foldl applyOption \<lparr>pName = [], pArgs = [], pStateDir = []\<rparr> opts"

datatype event =
    MkdirAll string
  | SH string
  | Stat string
  | LookPath string
  | Monitor proc_config
  | Run proc_config
  | Stop proc_config
  | IsAlive proc_config
  | RemoveAll string
  | Dial string string
  | CreateTemp string string
  | CloseFile string
  | Remove string
  | Write string
  | SetReadDeadline
  | Read
  | CloseConn

record 'w sys =
  types_DefaultDriveSize :: string
  sys_MkdirAll :: "string \<Rightarrow> 'w \<Rightarrow> error option \<times> 'w"
  sys_SH :: "string \<Rightarrow> 'w \<Rightarrow> (string \<times> error option) \<times> 'w"
  sys_Stat :: "string \<Rightarrow> 'w \<Rightarrow> error option \<times> 'w"
  sys_LookPath :: "string \<Rightarrow> 'w \<Rightarrow> (error + string) \<times> 'w"
  sys_monitor :: "proc_config \<Rightarrow> 'w \<Rightarrow> unit \<times> 'w"
  sys_Run :: "proc_config \<Rightarrow> 'w \<Rightarrow> error option \<times> 'w"
  sys_Stop :: "proc_config \<Rightarrow> 'w \<Rightarrow> error option \<times> 'w"
  sys_IsAlive :: "proc_config \<Rightarrow> 'w \<Rightarrow> bool \<times> 'w"
  sys_RemoveAll :: "string \<Rightarrow> 'w \<Rightarrow> error option \<times> 'w"
  sys_Dial :: "string \<Rightarrow> string \<Rightarrow> 'w \<Rightarrow> error option \<times> 'w"
  sys_CreateTemp :: "string \<Rightarrow> string \<Rightarrow> 'w \<Rightarrow> (error + string) \<times> 'w"
  sys_CloseFile :: "string \<Rightarrow> 'w \<Rightarrow> unit \<times> 'w"
  sys_Remove :: "string \<Rightarrow> 'w \<Rightarrow> unit \<times> 'w"
  sys_Write :: "string \<Rightarrow> 'w \<Rightarrow> (nat \<times> error option) \<times> 'w"
  sys_SetReadDeadline :: "'w \<Rightarrow> error option \<times> 'w"
  sys_Read :: "'w \<Rightarrow> error option \<times> 'w"
  sys_CloseConn :: "'w \<Rightarrow> unit \<times> 'w"

type_synonym 'w st = "event list \<times> 'w"

definition call :: "event \<Rightarrow> ('w \<Rightarrow> 'a \<times> 'w) \<Rightarrow> 'w st \<Rightarrow> 'a \<times> 'w st" where
  "call ev f s = (case f (snd s) of (r, w') \<Rightarrow> (r, (fst s @ [ev], w')))"

section \<open>The type QEMU and its methods\<close>

record QEMU =
  machineConfig :: MachineConfig
  process :: "proc_config option"


definition monitorSockFile :: "QEMU \<Rightarrow> string" where
  "monitorSockFile q = path_Join [StateDir (machineConfig q), ''qemu-monitor.sock'']"

definition driveSizes :: "'w sys \<Rightarrow> QEMU \<Rightarrow> string list" where
  "driveSizes sys q =
     (let sizes = map (\<lambda>s. s @ ''M'') (DriveSizes (machineConfig q))
      in if length sizes = 0 then sizes @ [types_DefaultDriveSize sys @ ''M''] else sizes)"

definition CreateDisk :: "'w sys \<Rightarrow> QEMU \<Rightarrow> string \<Rightarrow> string \<Rightarrow> 'w st \<Rightarrow> error option \<times> 'w st" where
  "CreateDisk sys q diskname sz s =
     (case call (MkdirAll (StateDir (machineConfig q)))
                (sys_MkdirAll sys (StateDir (machineConfig q))) s of
        (Some err, s1) \<Rightarrow> (Some err, s1)
      | (None, s1) \<Rightarrow>
          (let cmd = ''qemu-img create -f qcow2 '' @
                     filepath_Join [StateDir (machineConfig q), diskname] @ '' '' @ sz
           in case call (SH cmd) (sys_SH sys cmd) s1 of
                ((out, Some err), s2) \<Rightarrow> (Some (out @ '' : '' @ err), s2)
              | ((out, None), s2) \<Rightarrow> (None, s2)))"

text \<open>
  \<open>createDisks\<close> is the loop \<open>for i, s := range driveSizes\<close> of \<open>Create\<close>; it returns
  the error that makes \<open>Create\<close> return, or the extended \<open>userDrives\<close>.
\<close>

fun createDisks :: "'w sys \<Rightarrow> QEMU \<Rightarrow> nat \<Rightarrow> string list \<Rightarrow> string list \<Rightarrow> 'w st
                    \<Rightarrow> (error + string list) \<times> 'w st" where
  "createDisks sys q i [] userDrives s = (Inr userDrives, s)"
| "createDisks sys q i (sz # rest) userDrives s =
     (let filename = ID (machineConfig q) @ ''-'' @ itoa i @ ''.img''
      in case CreateDisk sys q filename sz s of
           (Some err, s1) \<Rightarrow> (Inl (''creating disk with size '' @ sz @ '': '' @ err), s1)
         | (None, s1) \<Rightarrow>
             createDisks sys q (i + 1) rest
               (userDrives @ [filepath_Join [StateDir (machineConfig q), filename]]) s1)"

definition commonPaths :: "string list" where
  "commonPaths =
     [''/home/linuxbrew/.linuxbrew/bin/'',
      ''/usr/local/bin/'',
      ''/usr/bin/'',
      ''/opt/homebrew/bin/'',
      ''/usr/local/homebrew/bin/'']"

text \<open>\<open>statLoop\<close> is the loop over \<open>commonPaths\<close>; \<open>Some\<close> is its early return.\<close>

fun statLoop :: "'w sys \<Rightarrow> string \<Rightarrow> string list \<Rightarrow> 'w st \<Rightarrow> string option \<times> 'w st" where
  "statLoop sys qemuBinary [] s = (None, s)"
| "statLoop sys qemuBinary (p # ps) s =
     (case call (Stat (filepath_Join [p, qemuBinary]))
                (sys_Stat sys (filepath_Join [p, qemuBinary])) s of
        (None, s1) \<Rightarrow> (Some (filepath_Join [p, qemuBinary]), s1)
      | (Some err, s1) \<Rightarrow> statLoop sys qemuBinary ps s1)"

definition findQEMUBinary :: "'w sys \<Rightarrow> string \<Rightarrow> 'w st \<Rightarrow> (error + string) \<times> 'w st" where
  "findQEMUBinary sys arch s =
     (let qemuBinary = ''qemu-system-'' @ arch
      in case statLoop sys qemuBinary commonPaths s of
           (Some p, s1) \<Rightarrow> (Inr p, s1)
         | (None, s1) \<Rightarrow>
             (case call (LookPath qemuBinary) (sys_LookPath sys qemuBinary) s1 of
                (Inl err, s2) \<Rightarrow>
                  (Inl (qemuBinary @ '' not found in common paths or PATH: '' @ err), s2)
              | (Inr p, s2) \<Rightarrow> (Inr p, s2)))"

text \<open>\<open>createOpts\<close> is the slice \<open>opts\<close> that \<open>Create\<close> builds (lines 143 to 184).\<close>

definition createOpts :: "QEMU \<Rightarrow> string list" where
  "createOpts q =
     (let cfg = machineConfig q;
          display = (if Display cfg \<noteq> [] then Display cfg else ''-nographic'');
          opts0 = [''-m'', Memory cfg,
                   ''-smp'', ''cores='' @ CPU cfg,
                   ''-rtc'', ''base=utc,clock=rt'',
                   ''-monitor'', ''unix:'' @ monitorSockFile q @ '',server,nowait'',
                   ''-device'', ''virtio-serial''];
          opts1 = (if \<not> DisableDefaultNetworking cfg
                   then opts0 @ [''-nic'', ''user,hostfwd=tcp::'' @ SSH_Port cfg @ ''-:22'']
                   else opts0);
          opts2 = opts1 @ strings_Split display (CHR '' '');
          opts3 = (if CPUType cfg \<noteq> [] then opts2 @ [''-cpu'', CPUType cfg]
                   else if Arch cfg = ''aarch64'' then opts2 @ [''-cpu'', ''max'']
                   else opts2);
          opts4 = opts3 @ Args cfg;
          opts5 = (if Arch cfg = ''aarch64''
                   then opts4 @ [''-machine'', ''virt,accel=tcg,acpi=on,gic-version=2'']
                   else opts4)
      in opts5 @ [''-boot'', ''order=dc,menu=on''])"

text \<open>
  \<open>Create\<close> returns the receiver, whose field \<open>process\<close> it sets, and the error. The
  context it takes and returns has no part in what follows and is left out, and so is
  logging.
\<close>

definition Create :: "'w sys \<Rightarrow> QEMU \<Rightarrow> 'w st \<Rightarrow> (QEMU \<times> error option) \<times> 'w st" where
  "Create sys q s =
     (let cfg = machineConfig q;
          driveSizes = driveSizes sys q;
          userDrives = Drives cfg
      in case (if AutoDriveSetup cfg \<and> length userDrives = 0
               then createDisks sys q 0 driveSizes userDrives s
               else (Inr userDrives, s)) of
           (Inl err, s1) \<Rightarrow> ((q, Some err), s1)
         | (Inr userDrives, s1) \<Rightarrow>
             (case (if Process cfg \<noteq> [] then (Inr (Process cfg), s1)
                    else findQEMUBinary sys (Arch cfg) s1) of
                (Inl err, s2) \<Rightarrow> ((q, Some (''failed to find QEMU binary: '' @ err)), s2)
              | (Inr processName, s2) \<Rightarrow>
                  (let qemu = process_New
                                [WithName processName,
                                 WithArgs (createOpts q),
                                 WithArgs (genDrives userDrives cfg),
                                 WithStateDir (StateDir cfg)];
                       q' = q\<lparr>process := Some qemu\<rparr>
                   in case call (Monitor qemu) (sys_monitor sys qemu) s2 of
                        (u, s3) \<Rightarrow>
                          (case call (Run qemu) (sys_Run sys qemu) s3 of
                             (err, s4) \<Rightarrow> ((q', err), s4)))))"

text \<open>
  The drain loop \<open>for { if _, err := conn.Read(b); err != nil { break } }\<close> runs as long
  as the reads succeed; \<open>None\<close> is the loop that never ends.
\<close>

partial_function (option) drainLoop :: "'w sys \<Rightarrow> 'w st \<Rightarrow> 'w st option" where
  "drainLoop sys s =
     (case call Read (sys_Read sys) s of
        (Some err, s1) \<Rightarrow> Some s1
      | (None, s1) \<Rightarrow> drainLoop sys s1)"

declare drainLoop.simps [code]

definition shortWrite :: "nat \<Rightarrow> nat \<Rightarrow> error" where
  "shortWrite n len =
     ''didn't send the full command ('' @ itoa n @ '' out of '' @ itoa len @ '' bytes)''"

definition closeConn :: "'w sys \<Rightarrow> 'w st \<Rightarrow> 'w st" where
  "closeConn sys s = snd (call CloseConn (sys_CloseConn sys) s)"

text \<open>
  \<open>sendAndDrain\<close> is the part that \<open>Screenshot\<close> and \<open>DetachCD\<close> have in common, from
  \<open>fmt.Fprint(conn, cmd)\<close> to the end of the drain loop. It returns the error to return,
  if any.
\<close>

definition sendAndDrain :: "'w sys \<Rightarrow> string \<Rightarrow> 'w st \<Rightarrow> (error option \<times> 'w st) option" where
  "sendAndDrain sys cmd s =
     (case call (Write cmd) (sys_Write sys cmd) s of
        ((n, Some err), s1) \<Rightarrow> Some (Some err, s1)
      | ((n, None), s1) \<Rightarrow>
          if n \<noteq> length cmd then Some (Some (shortWrite n (length cmd)), s1)
          else
            (case call SetReadDeadline (sys_SetReadDeadline sys) s1 of
               (Some err, s2) \<Rightarrow> Some (Some err, s2)
             | (None, s2) \<Rightarrow>
                 (case drainLoop sys s2 of
                    None \<Rightarrow> None
                  | Some s3 \<Rightarrow> Some (None, s3))))"

definition Screenshot :: "'w sys \<Rightarrow> QEMU \<Rightarrow> 'w st \<Rightarrow> ((string \<times> error option) \<times> 'w st) option" where
  "Screenshot sys q s =
     (case call (Dial ''unix'' (monitorSockFile q)) (sys_Dial sys ''unix'' (monitorSockFile q)) s of
        (Some err, s1) \<Rightarrow> Some (([], Some err), s1)
      | (None, s1) \<Rightarrow>
          (case call (CreateTemp [] ''qemu-screenshot-*.png'')
                     (sys_CreateTemp sys [] ''qemu-screenshot-*.png'') s1 of
             (Inl err, s2) \<Rightarrow> Some (([], Some err), closeConn sys s2)
           | (Inr fName, s2) \<Rightarrow>
               (let s3 = snd (call (CloseFile fName) (sys_CloseFile sys fName) s2);
                    s4 = snd (call (Remove fName) (sys_Remove sys fName) s3);
                    cmd = ''screendump '' @ fName @ [CHR 0x0D, CHR 0x0A]
                in case sendAndDrain sys cmd s4 of
                     None \<Rightarrow> None
                   | Some (Some err, s5) \<Rightarrow> Some (([], Some err), closeConn sys s5)
                   | Some (None, s5) \<Rightarrow> Some ((fName, None), closeConn sys s5))))"

definition DetachCD :: "'w sys \<Rightarrow> QEMU \<Rightarrow> 'w st \<Rightarrow> (error option \<times> 'w st) option" where
  "DetachCD sys q s =
     (case call (Dial ''unix'' (monitorSockFile q)) (sys_Dial sys ''unix'' (monitorSockFile q)) s of
        (Some err, s1) \<Rightarrow> Some (Some err, s1)
      | (None, s1) \<Rightarrow>
          (let cmd = ''eject -f ide0-cd0'' @ [CHR 0x0D, CHR 0x0A]
           in case sendAndDrain sys cmd s1 of
                None \<Rightarrow> None
              | Some (err, s2) \<Rightarrow> Some (err, closeConn sys s2)))"



definition Alive :: "'w sys \<Rightarrow> QEMU \<Rightarrow> 'w st \<Rightarrow> bool \<times> 'w st" where
  "Alive sys q s =
     (let p = process_New [WithStateDir (StateDir (machineConfig q))]
      in call (IsAlive p) (sys_IsAlive sys p) s)"

section \<open>Auxiliary definitions\<close>

subsection \<open>The drive tokens of one drive\<close>

text \<open>\<open>userTokens i d\<close> is what one round of \<open>userDiskLoop\<close> appends for the drive \<open>d\<close> at index \<open>i\<close>.\<close>

definition userTokens :: "nat \<Rightarrow> string \<Rightarrow> string list" where
  "userTokens i d =
     [''-drive'', ''if=none,id=drv'' @ itoa i @ '',file='' @ d,
      ''-device'', ''virtio-blk-pci,drive=drv'' @ itoa i @ '',bootindex='' @ itoa (i + 1)]"

subsection \<open>Reading a log\<close>

fun isProvisioning :: "event \<Rightarrow> bool" where
  "isProvisioning (MkdirAll p) = True"
| "isProvisioning (SH c) = True"
| "isProvisioning e = False"


fun isRun :: "event \<Rightarrow> bool" where
  "isRun (Run c) = True"
| "isRun e = False"

subsection \<open>The steps of Create\<close>

text \<open>
  The two steps of \<open>Create\<close> that can fail before the launch, and the process that
  \<open>Create\<close> configures for a process name and a list of drives.
\<close>

definition stageDisks :: "'w sys \<Rightarrow> QEMU \<Rightarrow> 'w st \<Rightarrow> (error + string list) \<times> 'w st" where
  "stageDisks sys q s =
     (if AutoDriveSetup (machineConfig q) \<and> length (Drives (machineConfig q)) = 0
      then createDisks sys q 0 (driveSizes sys q) (Drives (machineConfig q)) s
      else (Inr (Drives (machineConfig q)), s))"

definition stageBinary :: "'w sys \<Rightarrow> QEMU \<Rightarrow> 'w st \<Rightarrow> (error + string) \<times> 'w st" where
  "stageBinary sys q s =
     (if Process (machineConfig q) \<noteq> [] then (Inr (Process (machineConfig q)), s)
      else findQEMUBinary sys (Arch (machineConfig q)) s)"

definition qemuProcess :: "QEMU \<Rightarrow> string \<Rightarrow> string list \<Rightarrow> proc_config" where
  "qemuProcess q processName userDrives =
     process_New
       [WithName processName,
        WithArgs (createOpts q),
        WithArgs (genDrives userDrives (machineConfig q)),
        WithStateDir (StateDir (machineConfig q))]"

text \<open>The drives that \<open>genDrives\<close> reads when the disks have been provisioned.\<close>

definition userDrivesOf :: "'w sys \<Rightarrow> QEMU \<Rightarrow> string list" where
  "userDrivesOf sys q =
     (if AutoDriveSetup (machineConfig q) \<and> Drives (machineConfig q) = []
      then map (\<lambda>i. filepath_Join [StateDir (machineConfig q),
                                     ID (machineConfig q) @ ''-'' @ itoa i @ ''.img''])
               [0..<length (driveSizes sys q)]
      else Drives (machineConfig q))"

subsection \<open>Looking for the binary\<close>

text \<open>The name of the binary, and the paths that \<open>findQEMUBinary\<close> looks at for the binary \<open>b\<close>, in order.\<close>

definition qemuBinary :: "QEMU \<Rightarrow> string" where
  "qemuBinary q = ''qemu-system-'' @ Arch (machineConfig q)"




subsection \<open>The monitor commands and the reads of the drain loop\<close>

text \<open>The command lines that \<open>DetachCD\<close> and \<open>Screenshot\<close> write.\<close>

definition ejectCmd :: string where
  "ejectCmd = ''eject -f ide0-cd0'' @ [CHR 0x0D, CHR 0x0A]"

definition screendumpCmd :: "string \<Rightarrow> string" where
  "screendumpCmd fName = ''screendump '' @ fName @ [CHR 0x0D, CHR 0x0A]"

text \<open>
  \<open>firstErrorAt sys w k\<close>: starting in the world \<open>w\<close>, the reads number \<open>0\<close> to \<open>k - 1\<close>
  succeed and read number \<open>k\<close> returns an error. \<open>afterReads sys n w\<close> is the world after
  \<open>n\<close> reads.
\<close>

fun firstErrorAt :: "'w sys \<Rightarrow> 'w \<Rightarrow> nat \<Rightarrow> bool" where
  "firstErrorAt sys w 0 = (fst (sys_Read sys w) \<noteq> None)"
| "firstErrorAt sys w (Suc k) =
     (fst (sys_Read sys w) = None \<and> firstErrorAt sys (snd (sys_Read sys w)) k)"

fun afterReads :: "'w sys \<Rightarrow> nat \<Rightarrow> 'w \<Rightarrow> 'w" where
  "afterReads sys 0 w = w"
| "afterReads sys (Suc n) w = afterReads sys n (snd (sys_Read sys w))"

subsection \<open>Stop and Clean\<close>



section \<open>Example inputs\<close>

subsection \<open>Configurations\<close>

definition exConfig :: MachineConfig where
  "exConfig =
     \<lparr>ID = ''vm1'', Memory = ''2048'', CPU = ''2'', CPUType = [], Arch = ''x86_64'',
      Drives = [], DriveSizes = [], AutoDriveSetup = False, ISO = [], DataSource = [],
      DisableDefaultNetworking = False, SSH_Port = ''2222'', Display = [], Args = [],
      StateDir = ''/tmp/vm1'', Process = []\<rparr>"


definition exQEMU :: "MachineConfig \<Rightarrow> QEMU" where
  "exQEMU cfg = \<lparr>machineConfig = cfg, process = None\<rparr>"


definition exDriveQ :: QEMU where
  "exDriveQ = exQEMU (exConfig\<lparr>Drives := [''/d/a.img''], Process := ''qemu''\<rparr>)"

definition exDriveProcess :: proc_config where
  "exDriveProcess =
     \<lparr>pName = ''qemu'',
      pArgs = [''-m'', ''2048'', ''-smp'', ''cores=2'', ''-rtc'', ''base=utc,clock=rt'',
               ''-monitor'', ''unix:/tmp/vm1/qemu-monitor.sock,server,nowait'',
               ''-device'', ''virtio-serial'', ''-nic'', ''user,hostfwd=tcp::2222-:22'',
               ''-nographic'', ''-boot'', ''order=dc,menu=on'',
               ''-drive'', ''if=none,id=drv0,file=/d/a.img'',
               ''-device'', ''virtio-blk-pci,drive=drv0,bootindex=1''],
      pStateDir = ''/tmp/vm1''\<rparr>"

subsection \<open>An example system\<close>

text \<open>
  A world with the state directories of the running processes, the paths that exist and
  the number of reads that the monitor socket answers before the read deadline passes.
  In the example system no binary is installed, the process manager reports an error
  when it is asked to stop a process that does not run, and everything else succeeds.
\<close>

record exWorld =
  running :: "string list"
  files :: "string list"
  pending :: nat

definition inTree :: "string \<Rightarrow> string \<Rightarrow> bool" where
  "inTree dir p = (p = dir \<or> prefix (dir @ ''/'') p)"

definition exSys :: "exWorld sys" where
  "exSys =
     \<lparr>types_DefaultDriveSize = ''30000'',
      sys_MkdirAll = (\<lambda>p w. (None, w\<lparr>files := p # files w\<rparr>)),
      sys_SH = (\<lambda>c w. (([], None), w)),
      sys_Stat = (\<lambda>p w. (if p \<in> set (files w) then None
                           else Some (''stat '' @ p @ '': no such file or directory''), w)),
      sys_LookPath = (\<lambda>b w. (Inl (''exec: '' @ [CHR 0x22] @ b @ [CHR 0x22] @
                                     '': executable file not found in $PATH''), w)),
      sys_monitor = (\<lambda>c w. ((), w)),
      sys_Run = (\<lambda>c w. (None, w\<lparr>running := pStateDir c # running w\<rparr>)),
      sys_Stop = (\<lambda>c w. if pStateDir c \<in> set (running w)
                          then (None, w\<lparr>running := removeAll (pStateDir c) (running w)\<rparr>)
                          else (Some ''open pid: no such file or directory'', w)),
      sys_IsAlive = (\<lambda>c w. (pStateDir c \<in> set (running w), w)),
      sys_RemoveAll = (\<lambda>p w. (None, w\<lparr>files := filter (\<lambda>f. \<not> inTree p f) (files w)\<rparr>)),
      sys_Dial = (\<lambda>n a w. (None, w)),
      sys_CreateTemp = (\<lambda>d p w. (Inr ''/tmp/qemu-screenshot-42.png'', w)),
      sys_CloseFile = (\<lambda>f w. ((), w)),
      sys_Remove = (\<lambda>f w. ((), w)),
      sys_Write = (\<lambda>c w. ((length c, None), w)),
      sys_SetReadDeadline = (\<lambda>w. (None, w)),
      sys_Read = (\<lambda>w. if pending w = 0 then (Some ''i/o timeout'', w)
                        else (None, w\<lparr>pending := pending w - 1\<rparr>)),
      sys_CloseConn = (\<lambda>w. ((), w))\<rparr>"

definition exWorld0 :: exWorld where
  "exWorld0 = \<lparr>running = [], files = [''/tmp/keep.txt''], pending = 2\<rparr>"




text \<open>
  Variants of the example system: a monitor socket that takes three bytes of a command
  and reports no error, one that takes three bytes and reports a broken pipe, and a
  process manager whose \<open>Stop\<close> reports no error when there is no process.
\<close>

definition exShortSys :: "exWorld sys" where
  "exShortSys = exSys\<lparr>sys_Write := (\<lambda>c w. ((3, None), w))\<rparr>"

definition exBrokenSys :: "exWorld sys" where
  "exBrokenSys = exSys\<lparr>sys_Write := (\<lambda>c w. ((3, Some ''write: broken pipe''), w))\<rparr>"




section \<open>Decimal rendering and reading back\<close>

lemma digit_props: "k < 10 \<Longrightarrow> isDigit (digit k) \<and> digitVal (digit k) = k"
proof -
  assume "k < 10"
  then have "k \<in> {0, 1, 2, 3, 4, 5, 6, 7, 8, 9}" by auto
  then show ?thesis
    by (auto simp: digit_def isDigit_def digitVal_def)
qed

lemma itoa_nonempty: "itoa n \<noteq> []"
  by (subst itoa.simps) simp

lemma itoa_digits: "c \<in> set (itoa n) \<Longrightarrow> isDigit c"
proof (induction n arbitrary: c rule: itoa.induct)
  case (1 n)
  show ?case
  proof (cases "n < 10")
    case True
    with "1.prems" show ?thesis
      by (subst (asm) itoa.simps) (simp add: digit_props)
  next
    case False
    with "1.prems" have "c \<in> set (itoa (n div 10)) \<or> c = digit (n mod 10)"
      by (subst (asm) itoa.simps) auto
    then show ?thesis
      using "1.IH" False digit_props [of "n mod 10"] by auto
  qed
qed

lemma atoi_snoc: "atoi (ds @ [c]) = 10 * atoi ds + digitVal c"
  by (simp add: atoi_def)

lemma atoi_itoa: "atoi (itoa n) = n"
proof (induction n rule: itoa.induct)
  case (1 n)
  show ?case
  proof (cases "n < 10")
    case True
    then show ?thesis
      by (subst itoa.simps) (simp add: atoi_def digit_props)
  next
    case False
    then have "atoi (itoa n) = 10 * atoi (itoa (n div 10)) + digitVal (digit (n mod 10))"
      by (subst itoa.simps) (simp add: atoi_snoc)
    also have "\<dots> = 10 * (n div 10) + n mod 10"
      using "1.IH" False by (simp add: digit_props)
    finally show ?thesis by simp
  qed
qed

lemma bootindexOf_rendered: "bootindexOf (pre @ ''bootindex='' @ itoa n) = Some n"
proof -
  let ?tok = "pre @ ''bootindex='' @ itoa n"
  have r: "rev ?tok = rev (itoa n) @ rev ''bootindex='' @ rev pre" by simp
  have "takeWhile isDigit (rev ?tok) = rev (itoa n) @ takeWhile isDigit (rev ''bootindex='' @ rev pre)"
    unfolding r by (rule takeWhile_append2) (simp add: itoa_digits)
  also have "takeWhile isDigit (rev ''bootindex='' @ rev pre) = []"
    by (simp add: isDigit_def)
  finally have tw: "rev (takeWhile isDigit (rev ?tok)) = itoa n" by simp
  have tk: "take (length ?tok - length (itoa n)) ?tok = pre @ ''bootindex=''" by simp
  show ?thesis
    unfolding bootindexOf_def Let_def tw tk
    by (simp add: itoa_nonempty atoi_itoa suffix_def)
qed




section \<open>The drive tokens\<close>

lemma userDiskLoop_eq:
  "userDiskLoop j ds acc j =
     (acc @ concat (map (\<lambda>i. userTokens (j + i) (ds ! i)) [0..<length ds]), j + length ds)"
proof (induction ds arbitrary: j acc)
  case Nil
  then show ?case by simp
next
  case (Cons d ds)
  have "concat (map (\<lambda>i. userTokens (j + i) ((d # ds) ! i)) [0..<length (d # ds)])
      = userTokens j d @ concat (map (\<lambda>i. userTokens (Suc j + i) (ds ! i)) [0..<length ds])"
  proof -
    have "[0..<length (d # ds)] = 0 # map Suc [0..<length ds]"
      by (simp add: upt_conv_Cons map_Suc_upt del: upt_Suc)
    then show ?thesis by (simp add: comp_def)
  qed
  then show ?case
    using Cons.IH [of "Suc j"] by (simp add: userTokens_def)
qed

lemma genDrives_no_media:
  "ISO m = [] \<Longrightarrow> DataSource m = [] \<Longrightarrow>
   genDrives ds m = concat (map (\<lambda>i. userTokens i (ds ! i)) [0..<length ds])"
  using userDiskLoop_eq [of 0 ds "[]"] by (simp add: genDrives_def)


lemma scsi_notin_userTokens: "scsiController \<notin> set (userTokens i d)"
  by (simp add: userTokens_def scsiController_def)

lemma tokenPairs_userTokens:
  "tokenPairs (userTokens i d @ rest) =
     (''-drive'', ''if=none,id=drv'' @ itoa i @ '',file='' @ d) #
     (''-device'', ''virtio-blk-pci,drive=drv'' @ itoa i @ '',bootindex='' @ itoa (i + 1)) #
     tokenPairs rest"
  by (simp add: userTokens_def)

lemma deviceValues_userTokens:
  "deviceValues (userTokens i d @ rest) =
     (''virtio-blk-pci,drive=drv'' @ itoa i @ '',bootindex='' @ itoa (i + 1)) # deviceValues rest"
  by (simp add: deviceValues_def tokenPairs_userTokens)

lemma flags_userTokens:
  "map fst (tokenPairs (userTokens i d @ rest)) = ''-drive'' # ''-device'' # map fst (tokenPairs rest)"
  by (simp add: tokenPairs_userTokens)

lemma bootPriorities_userTokens:
  "bootPriorities (userTokens i d @ rest) = (i + 1) # bootPriorities rest"
proof -
  have "bootindexOf ((''virtio-blk-pci,drive=drv'' @ itoa i @ '','') @ ''bootindex='' @ itoa (i + 1)) = Some (i + 1)"
    by (rule bootindexOf_rendered)
  then show ?thesis
    by (simp add: bootPriorities_def deviceValues_userTokens List.map_filter_simps)
qed

lemma flags_user_concat:
  "map fst (tokenPairs (concat (map (\<lambda>i. userTokens (f i) (g i)) xs) @ rest)) =
     concat (replicate (length xs) [''-drive'', ''-device'']) @ map fst (tokenPairs rest)"
  by (induction xs) (simp_all add: flags_userTokens)

lemma bootPriorities_user_concat:
  "bootPriorities (concat (map (\<lambda>i. userTokens (f i) (g i)) xs) @ rest) =
     map (\<lambda>i. f i + 1) xs @ bootPriorities rest"
  by (induction xs) (simp_all add: bootPriorities_userTokens)

lemma scsi_notin_user_concat:
  "scsiController \<notin> set (concat (map (\<lambda>i. userTokens (f i) (g i)) xs))"
  by (simp add: scsi_notin_userTokens)


lemma map_Suc_upt0: "map (\<lambda>i. i + 1) [0..<n] = [1..<n + 1]"
  using map_Suc_upt [of 0 n] by simp

lemma bootPriorities_Nil: "bootPriorities [] = []"
  by (simp add: bootPriorities_def deviceValues_def List.map_filter_simps)

text \<open>
  C1. With \<open>N\<close> persistent drives and neither an ISO nor a data source, \<open>genDrives\<close>
  returns exactly \<open>N\<close> pairs of a \<open>-drive\<close> and a \<open>-device\<close> token, in the order of the
  drives; the device of the drive at position \<open>i\<close> (counted from 1) has \<open>bootindex=i\<close>;
  and the token of the SCSI controller for removable media does not occur.
\<close>

theorem genDrives_persistent_only:
  assumes "ISO m = []" and "DataSource m = []"
  shows "genDrives userDrives m =
           concat (map (\<lambda>i. [''-drive'', ''if=none,id=drv'' @ itoa i @ '',file='' @ userDrives ! i,
                             ''-device'', ''virtio-blk-pci,drive=drv'' @ itoa i @ '',bootindex='' @ itoa (i + 1)])
                       [0..<length userDrives])
       \<and> map fst (tokenPairs (genDrives userDrives m)) =
           concat (replicate (length userDrives) [''-drive'', ''-device''])
       \<and> bootPriorities (genDrives userDrives m) = [1..<length userDrives + 1]
       \<and> scsiController \<notin> set (genDrives userDrives m)"
proof -
  let ?u = "concat (map (\<lambda>i. userTokens i (userDrives ! i)) [0..<length userDrives])"
  have g: "genDrives userDrives m = ?u"
    using assms by (rule genDrives_no_media)
  have 1: "?u = concat (map (\<lambda>i. [''-drive'', ''if=none,id=drv'' @ itoa i @ '',file='' @ userDrives ! i,
                             ''-device'', ''virtio-blk-pci,drive=drv'' @ itoa i @ '',bootindex='' @ itoa (i + 1)])
                       [0..<length userDrives])"
    by (simp add: userTokens_def)
  have 2: "map fst (tokenPairs ?u) = concat (replicate (length userDrives) [''-drive'', ''-device''])"
    using flags_user_concat [of "\<lambda>i. i" "\<lambda>i. userDrives ! i" "[0..<length userDrives]" "[]"] by simp
  have 3: "bootPriorities ?u = [1..<length userDrives + 1]"
    using bootPriorities_user_concat [of "\<lambda>i. i" "\<lambda>i. userDrives ! i" "[0..<length userDrives]" "[]"]
    unfolding map_Suc_upt0 bootPriorities_Nil by simp
  have 4: "scsiController \<notin> set ?u"
    by (rule scsi_notin_user_concat)
  show ?thesis
    unfolding g using 1 2 3 4 by simp
qed

theorem genDrives_persistent_only_witness:
  "ISO exConfig = [] \<and> DataSource exConfig = [] \<and>
   genDrives [''/d/a.img'', ''/d/b.img''] exConfig =
     [''-drive'', ''if=none,id=drv0,file=/d/a.img'',
      ''-device'', ''virtio-blk-pci,drive=drv0,bootindex=1'',
      ''-drive'', ''if=none,id=drv1,file=/d/b.img'',
      ''-device'', ''virtio-blk-pci,drive=drv1,bootindex=2''] \<and>
   bootPriorities (genDrives [''/d/a.img'', ''/d/b.img''] exConfig) = [1, 2] \<and>
   scsiController \<notin> set (genDrives [''/d/a.img'', ''/d/b.img''] exConfig)"
proof -
  have h1: "ISO exConfig = []" and h2: "DataSource exConfig = []"
    by (simp_all add: exConfig_def)
  note t = genDrives_persistent_only [OF h1 h2, of "[''/d/a.img'', ''/d/b.img'']"]
  have u: "[0..<length [''/d/a.img'', ''/d/b.img'']] = [0, 1]"
    by (simp add: upt_conv_Cons)
  have v: "[1..<length [''/d/a.img'', ''/d/b.img''] + 1] = [1, 2]"
    by (simp add: upt_conv_Cons)
  have a: "genDrives [''/d/a.img'', ''/d/b.img''] exConfig =
     [''-drive'', ''if=none,id=drv0,file=/d/a.img'',
      ''-device'', ''virtio-blk-pci,drive=drv0,bootindex=1'',
      ''-drive'', ''if=none,id=drv1,file=/d/b.img'',
      ''-device'', ''virtio-blk-pci,drive=drv1,bootindex=2'']"
    using t [THEN conjunct1] unfolding u by (simp add: itoa.simps digit_def)
  have b: "bootPriorities (genDrives [''/d/a.img'', ''/d/b.img''] exConfig) = [1, 2]"
    using t [THEN conjunct2, THEN conjunct2, THEN conjunct1] unfolding v .
  have c: "scsiController \<notin> set (genDrives [''/d/a.img'', ''/d/b.img''] exConfig)"
    using t [THEN conjunct2, THEN conjunct2, THEN conjunct2] .
  show ?thesis using h1 h2 a b c by blast
qed






section \<open>The log of a run\<close>

lemma call_eq: "call ev f (lg, w) = (fst (f w), (lg @ [ev], snd (f w)))"
  by (simp add: call_def split: prod.split)


lemma CreateDisk_log:
  "fst (snd (CreateDisk sys q fn sz (lg, w))) =
     lg @ MkdirAll (StateDir (machineConfig q)) #
       (if fst (sys_MkdirAll sys (StateDir (machineConfig q)) w) = None
        then [SH (''qemu-img create -f qcow2 '' @
                  filepath_Join [StateDir (machineConfig q), fn] @ '' '' @ sz)]
        else [])"
  by (simp add: CreateDisk_def call_eq Let_def split: prod.split option.split)

lemma statLoop_filter:
  assumes "\<And>p. \<not> P (Stat p)"
  shows "filter P (fst (snd (statLoop sys b ps s))) = filter P (fst s)"
proof (induction ps arbitrary: s)
  case Nil
  show ?case by simp
next
  case (Cons p ps)
  obtain lg w where s: "s = (lg, w)" by (cases s)
  show ?case
    unfolding s using assms Cons.IH
    by (simp add: call_eq split: prod.split option.split)
qed

lemma findQEMUBinary_filter:
  assumes "\<And>p. \<not> P (Stat p)" and "\<And>b. \<not> P (LookPath b)"
  shows "filter P (fst (snd (findQEMUBinary sys arch s))) = filter P (fst s)"
proof -
  let ?b = "''qemu-system-'' @ arch"
  obtain r lg w where sl: "statLoop sys ?b commonPaths s = (r, (lg, w))"
    by (metis prod.exhaust)
  have f: "filter P lg = filter P (fst s)"
    using statLoop_filter [of P sys ?b commonPaths s, OF assms(1)] sl by simp
  show ?thesis
    unfolding findQEMUBinary_def Let_def sl
    using f assms(2)
    by (cases r) (simp_all add: call_eq split: sum.split)
qed



lemma provisioning_filter_single:
  "filter isProvisioning (MkdirAll d # (if c then [SH x] else [])) = MkdirAll d # (if c then [SH x] else [])"
  by simp




section \<open>The arguments of the launched process\<close>

lemma Create_stages:
  "Create sys q s =
     (case stageDisks sys q s of
        (Inl err, s1) \<Rightarrow> ((q, Some err), s1)
      | (Inr ud, s1) \<Rightarrow>
          (case stageBinary sys q s1 of
             (Inl err, s2) \<Rightarrow> ((q, Some (''failed to find QEMU binary: '' @ err)), s2)
           | (Inr pn, s2) \<Rightarrow>
               ((q\<lparr>process := Some (qemuProcess q pn ud)\<rparr>,
                 fst (sys_Run sys (qemuProcess q pn ud)
                        (snd (sys_monitor sys (qemuProcess q pn ud) (snd s2))))),
                (fst s2 @ [Monitor (qemuProcess q pn ud), Run (qemuProcess q pn ud)],
                 snd (sys_Run sys (qemuProcess q pn ud)
                        (snd (sys_monitor sys (qemuProcess q pn ud) (snd s2))))))))"
  by (simp add: Create_def stageDisks_def stageBinary_def qemuProcess_def Let_def call_def
           split: prod.split sum.split)

lemma qemuProcess_fields:
  "pName (qemuProcess q pn ud) = pn"
  "pArgs (qemuProcess q pn ud) = createOpts q @ genDrives ud (machineConfig q)"
  "pStateDir (qemuProcess q pn ud) = StateDir (machineConfig q)"
  by (simp_all add: qemuProcess_def process_New_def)

lemma CreateDisk_filter:
  assumes "\<And>p. \<not> P (MkdirAll p)" and "\<And>c. \<not> P (SH c)"
  shows "filter P (fst (snd (CreateDisk sys q fn sz s))) = filter P (fst s)"
proof -
  obtain lg w where s: "s = (lg, w)" by (cases s)
  show ?thesis
    unfolding s CreateDisk_log using assms by simp
qed

lemma createDisks_filter:
  assumes "\<And>p. \<not> P (MkdirAll p)" and "\<And>c. \<not> P (SH c)"
  shows "filter P (fst (snd (createDisks sys q i szs acc s))) = filter P (fst s)"
proof (induction szs arbitrary: i acc s)
  case Nil
  show ?case by simp
next
  case (Cons sz szs)
  let ?fn = "ID (machineConfig q) @ ''-'' @ itoa i @ ''.img''"
  obtain r s1 where cd: "CreateDisk sys q ?fn sz s = (r, s1)" by (metis prod.exhaust)
  have f: "filter P (fst s1) = filter P (fst s)"
    using CreateDisk_filter [of P sys q ?fn sz s, OF assms] cd by simp
  show ?case
    using cd f Cons.IH by (cases r) (simp_all add: Let_def)
qed

lemma createDisks_result:
  "fst (createDisks sys q i szs acc s) = Inr ud \<Longrightarrow>
   ud = acc @ map (\<lambda>k. filepath_Join [StateDir (machineConfig q),
                                        ID (machineConfig q) @ ''-'' @ itoa (i + k) @ ''.img''])
                  [0..<length szs]"
proof (induction szs arbitrary: i acc s)
  case Nil
  then show ?case by simp
next
  case (Cons sz szs)
  let ?fn = "ID (machineConfig q) @ ''-'' @ itoa i @ ''.img''"
  obtain r s1 where cd: "CreateDisk sys q ?fn sz s = (r, s1)" by (metis prod.exhaust)
  have up: "[0..<length (sz # szs)] = 0 # map Suc [0..<length szs]"
    by (simp add: upt_conv_Cons map_Suc_upt del: upt_Suc)
  show ?case
  proof (cases r)
    case None
    then have "fst (createDisks sys q (i + 1) szs
                 (acc @ [filepath_Join [StateDir (machineConfig q), ?fn]]) s1) = Inr ud"
      using Cons.prems cd by (simp add: Let_def)
    from Cons.IH [OF this] show ?thesis
      unfolding up by (simp add: comp_def)
  next
    case (Some err)
    then show ?thesis
      using Cons.prems cd by (simp add: Let_def)
  qed
qed

lemma stageDisks_result:
  "fst (stageDisks sys q s) = Inr ud \<Longrightarrow> ud = userDrivesOf sys q"
proof -
  assume a: "fst (stageDisks sys q s) = Inr ud"
  show ?thesis
  proof (cases "AutoDriveSetup (machineConfig q) \<and> Drives (machineConfig q) = []")
    case True
    then have "fst (createDisks sys q 0 (driveSizes sys q) [] s) = Inr ud"
      using a by (simp add: stageDisks_def)
    from createDisks_result [OF this] show ?thesis
      using True by (simp add: userDrivesOf_def)
  next
    case False
    then show ?thesis
      using a by (auto simp: stageDisks_def userDrivesOf_def)
  qed
qed

lemma stageDisks_filter:
  assumes "\<And>p. \<not> P (MkdirAll p)" and "\<And>c. \<not> P (SH c)"
  shows "filter P (fst (snd (stageDisks sys q s))) = filter P (fst s)"
  by (simp add: stageDisks_def createDisks_filter [of P, OF assms])

lemma stageBinary_filter:
  assumes "\<And>p. \<not> P (Stat p)" and "\<And>b. \<not> P (LookPath b)"
  shows "filter P (fst (snd (stageBinary sys q s))) = filter P (fst s)"
  by (simp add: stageBinary_def findQEMUBinary_filter [of P, OF assms])

lemma createOpts_ends_with_boot:
  "drop (length (createOpts q) - 2) (createOpts q) = [''-boot'', ''order=dc,menu=on'']"
  by (simp add: createOpts_def Let_def)

text \<open>What \<open>Create\<close> launches.\<close>

lemma Create_runs:
  "filter isRun (fst (snd (Create sys q ([], w)))) =
     (case stageDisks sys q ([], w) of
        (Inl err, s1) \<Rightarrow> []
      | (Inr ud, s1) \<Rightarrow>
          (case stageBinary sys q s1 of
             (Inl err, s2) \<Rightarrow> []
           | (Inr pn, s2) \<Rightarrow> [Run (qemuProcess q pn (userDrivesOf sys q))]))"
proof -
  obtain r1 s1 where st1: "stageDisks sys q ([], w) = (r1, s1)" by (metis prod.exhaust)
  have f1: "filter isRun (fst s1) = []"
    using stageDisks_filter [of isRun sys q "([], w)"] st1 by simp
  obtain r2 s2 where st2: "stageBinary sys q s1 = (r2, s2)" by (metis prod.exhaust)
  have f2: "filter isRun (fst s2) = []"
    using stageBinary_filter [of isRun sys q s1] st2 f1 by simp
  show ?thesis
  proof (cases r1)
    case (Inl err)
    then show ?thesis using st1 f1 by (simp add: Create_stages)
  next
    case (Inr ud)
    then have ud: "ud = userDrivesOf sys q"
      using stageDisks_result [of sys q "([], w)" ud] st1 by simp
    show ?thesis
      using Inr st1 st2 f2 ud by (cases r2) (simp_all add: Create_stages)
  qed
qed

text \<open>
  C4. The arguments of the process that \<open>Create\<close> launches are the options
  followed by the drive tokens of \<open>genDrives\<close>. The options end with the pair
  \<open>-boot order=dc,menu=on\<close>, so what follows this pair in the arguments is exactly the
  list of drive tokens.
\<close>

theorem Create_boot_directive:
  assumes "Run c \<in> set (fst (snd (Create sys q ([], w))))"
  shows "pArgs c = createOpts q @ genDrives (userDrivesOf sys q) (machineConfig q)
       \<and> drop (length (createOpts q) - 2) (createOpts q) = [''-boot'', ''order=dc,menu=on'']
       \<and> drop (length (createOpts q)) (pArgs c) = genDrives (userDrivesOf sys q) (machineConfig q)"
proof -
  have "Run c \<in> set (filter isRun (fst (snd (Create sys q ([], w)))))"
    using assms by simp
  then have "c = qemuProcess q (pName c) (userDrivesOf sys q)"
    unfolding Create_runs
    by (auto simp: qemuProcess_fields split: prod.splits sum.splits)
  then have "pArgs c = createOpts q @ genDrives (userDrivesOf sys q) (machineConfig q)"
    using qemuProcess_fields(2) [of q "pName c" "userDrivesOf sys q"] by simp
  then show ?thesis
    using createOpts_ends_with_boot [of q] by simp
qed

lemma ex_drive_log:
  "fst (snd (Create exSys exDriveQ ([], exWorld0))) = [Monitor exDriveProcess, Run exDriveProcess]"
  by code_simp

lemma ex_drive_opts:
  "createOpts exDriveQ =
     [''-m'', ''2048'', ''-smp'', ''cores=2'', ''-rtc'', ''base=utc,clock=rt'',
      ''-monitor'', ''unix:/tmp/vm1/qemu-monitor.sock,server,nowait'',
      ''-device'', ''virtio-serial'', ''-nic'', ''user,hostfwd=tcp::2222-:22'',
      ''-nographic'', ''-boot'', ''order=dc,menu=on'']"
  by code_simp

theorem Create_boot_directive_witness:
  "Run exDriveProcess \<in> set (fst (snd (Create exSys exDriveQ ([], exWorld0)))) \<and>
   pArgs exDriveProcess =
     createOpts exDriveQ @ genDrives (userDrivesOf exSys exDriveQ) (machineConfig exDriveQ) \<and>
   drop (length (createOpts exDriveQ) - 2) (createOpts exDriveQ) = [''-boot'', ''order=dc,menu=on''] \<and>
   drop (length (createOpts exDriveQ)) (pArgs exDriveProcess) =
     [''-drive'', ''if=none,id=drv0,file=/d/a.img'',
      ''-device'', ''virtio-blk-pci,drive=drv0,bootindex=1'']"
proof -
  have h: "Run exDriveProcess \<in> set (fst (snd (Create exSys exDriveQ ([], exWorld0))))"
    unfolding ex_drive_log by simp
  note t = Create_boot_directive [OF h]
  have d: "drop (length (createOpts exDriveQ)) (pArgs exDriveProcess) =
     [''-drive'', ''if=none,id=drv0,file=/d/a.img'',
      ''-device'', ''virtio-blk-pci,drive=drv0,bootindex=1'']"
    unfolding ex_drive_opts by (simp add: exDriveProcess_def)
  show ?thesis using h t d by simp
qed

text \<open>
  With one drive, the arguments of the launched process end with the device of that
  drive, four tokens after the boot directive.
\<close>

theorem Create_boot_not_last_counterexample:
  "filter isRun (fst (snd (Create exSys exDriveQ ([], exWorld0)))) =
     [Run \<lparr>pName = ''qemu'',
           pArgs = [''-m'', ''2048'', ''-smp'', ''cores=2'', ''-rtc'', ''base=utc,clock=rt'',
                    ''-monitor'', ''unix:/tmp/vm1/qemu-monitor.sock,server,nowait'',
                    ''-device'', ''virtio-serial'', ''-nic'', ''user,hostfwd=tcp::2222-:22'',
                    ''-nographic'', ''-boot'', ''order=dc,menu=on'',
                    ''-drive'', ''if=none,id=drv0,file=/d/a.img'',
                    ''-device'', ''virtio-blk-pci,drive=drv0,bootindex=1''],
           pStateDir = ''/tmp/vm1''\<rparr>]
   \<and> drop (length (pArgs exDriveProcess) - 2) (pArgs exDriveProcess) =
       [''-device'', ''virtio-blk-pci,drive=drv0,bootindex=1'']
   \<and> drop (length (pArgs exDriveProcess) - 2) (pArgs exDriveProcess) \<noteq>
       [''-boot'', ''order=dc,menu=on'']"
  unfolding ex_drive_log by (simp add: exDriveProcess_def)

section \<open>The monitor socket\<close>


lemma strings_Split_nonempty: "strings_Split s c \<noteq> []"
  by (induction s) (auto split: list.split)

lemma strings_Split_append:
  "strings_Split (s @ c # t) c = strings_Split s c @ strings_Split t c"
proof (induction s)
  case Nil
  show ?case by simp
next
  case (Cons a s)
  obtain w ws where sp: "strings_Split s c = w # ws"
    using strings_Split_nonempty [of s c] by (cases "strings_Split s c") auto
  show ?case
    using Cons sp by simp
qed

lemma strings_Split_no_sep: "c \<notin> set s \<Longrightarrow> strings_Split s c = [s]"
  by (induction s) auto

lemma cleanElems_append:
  "cleanElems r out (xs @ ys) = cleanElems r (cleanElems r out xs) ys"
  by (induction xs arbitrary: out) auto

lemma strings_Join_snoc:
  "out \<noteq> [] \<Longrightarrow> strings_Join (out @ [f]) sep = strings_Join out sep @ sep @ f"
  by (induction out sep rule: strings_Join.induct) auto

lemma path_Join_clean_dir:
  assumes cl: "path_Clean d = d" and nr: "d \<noteq> ''/''" and nd: "d \<noteq> ''.''"
      and f: "f \<noteq> []" "f \<noteq> ''.''" "f \<noteq> ''..''" "CHR ''/'' \<notin> set f"
  shows "path_Join [d, f] = d @ ''/'' @ f"
proof -
  have dne: "d \<noteq> []"
    using cl by (auto simp: path_Clean_def)
  let ?rooted = "hd d = CHR ''/''"
  let ?out = "cleanElems ?rooted [] (strings_Split d (CHR ''/''))"
  let ?r = "(if ?rooted then ''/'' else []) @ strings_Join ?out ''/''"
  have cd: "path_Clean d = (if ?r = [] then ''.'' else ?r)"
    using dne by (simp add: path_Clean_def Let_def)
  have rne: "?r \<noteq> []"
    using cd cl nd by metis
  have r: "?r = d"
    using cd cl rne by metis
  have one: "?out \<noteq> []"
  proof
    assume "?out = []"
    then have "?r = (if ?rooted then ''/'' else [])" by simp
    then show False using r rne nr by (auto split: if_splits)
  qed
  have j: "path_Join [d, f] = path_Clean (d @ CHR ''/'' # f)"
    using dne by (simp add: path_Join_def)
  have sp: "strings_Split (d @ CHR ''/'' # f) (CHR ''/'') = strings_Split d (CHR ''/'') @ [f]"
    using strings_Split_append [of d "CHR ''/''" f] strings_Split_no_sep [OF f(4)] by simp
  have hd': "hd (d @ CHR ''/'' # f) = hd d"
    using dne by simp
  have out': "cleanElems ?rooted [] (strings_Split (d @ CHR ''/'' # f) (CHR ''/'')) = ?out @ [f]"
    unfolding sp cleanElems_append using f by simp
  have "path_Clean (d @ CHR ''/'' # f) =
          (let r' = (if ?rooted then ''/'' else []) @ strings_Join (?out @ [f]) ''/''
           in if r' = [] then ''.'' else r')"
    unfolding path_Clean_def Let_def hd' out' by simp
  also have "\<dots> = ?r @ ''/'' @ f"
    unfolding strings_Join_snoc [OF one] by (simp add: Let_def)
  finally show ?thesis
    unfolding j r by simp
qed

lemma drainLoop_terminates:
  "firstErrorAt sys w k \<Longrightarrow>
   drainLoop sys (lg, w) = Some (lg @ replicate (Suc k) Read, afterReads sys (Suc k) w)"
proof (induction k arbitrary: lg w)
  case 0
  then show ?case
    by (subst drainLoop.simps) (auto simp: call_eq split: option.split)
next
  case (Suc k)
  then have ok: "fst (sys_Read sys w) = None"
    and rest: "firstErrorAt sys (snd (sys_Read sys w)) k"
    by simp_all
  have "drainLoop sys (lg, w) = drainLoop sys (lg @ [Read], snd (sys_Read sys w))"
    by (subst drainLoop.simps) (simp add: call_eq ok)
  also have "\<dots> = Some ((lg @ [Read]) @ replicate (Suc k) Read,
                          afterReads sys (Suc k) (snd (sys_Read sys w)))"
    by (rule Suc.IH [OF rest])
  finally show ?case
    by (simp add: replicate_app_Cons_same)
qed

lemma drainLoop_result:
  assumes "drainLoop sys s = Some s'"
  shows "\<exists>k. firstErrorAt sys (snd s) k \<and>
             s' = (fst s @ replicate (Suc k) Read, afterReads sys (Suc k) (snd s))"
proof (rule drainLoop.raw_induct
    [where P = "\<lambda>sys s s'. \<exists>k. firstErrorAt sys (snd s) k \<and>
                  s' = (fst s @ replicate (Suc k) Read, afterReads sys (Suc k) (snd s))",
     OF _ assms])
  fix dl :: "'a sys \<Rightarrow> 'a st \<Rightarrow> 'a st option" and sys s s'
  assume IH: "\<And>sys s s'. dl sys s = Some s' \<Longrightarrow>
                \<exists>k. firstErrorAt sys (snd s) k \<and>
                    s' = (fst s @ replicate (Suc k) Read, afterReads sys (Suc k) (snd s))"
    and body: "(case call Read (sys_Read sys) s of
                  (None, s1) \<Rightarrow> dl sys s1
                | (Some err, s1) \<Rightarrow> Some s1) = Some s'"
  obtain lg w where s: "s = (lg, w)" by (cases s)
  show "\<exists>k. firstErrorAt sys (snd s) k \<and>
            s' = (fst s @ replicate (Suc k) Read, afterReads sys (Suc k) (snd s))"
  proof (cases "fst (sys_Read sys w)")
    case None
    then have "dl sys (lg @ [Read], snd (sys_Read sys w)) = Some s'"
      using body by (simp add: s call_eq)
    from IH [OF this] obtain k where
      k: "firstErrorAt sys (snd (sys_Read sys w)) k"
      and s': "s' = ((lg @ [Read]) @ replicate (Suc k) Read,
                     afterReads sys (Suc k) (snd (sys_Read sys w)))"
      by auto
    have "firstErrorAt sys (snd s) (Suc k)"
      using None k by (simp add: s)
    moreover have "s' = (fst s @ replicate (Suc (Suc k)) Read, afterReads sys (Suc (Suc k)) (snd s))"
      using s' by (simp add: s replicate_app_Cons_same)
    ultimately show ?thesis by blast
  next
    case (Some err)
    then have "s' = (lg @ [Read], snd (sys_Read sys w))"
      using body by (simp add: s call_eq)
    moreover have "firstErrorAt sys (snd s) 0"
      using Some by (simp add: s)
    ultimately show ?thesis
      by (intro exI [of _ 0]) (simp add: s)
  qed
qed

lemma drainLoop_log:
  "drainLoop sys s = Some s' \<Longrightarrow> prefix (fst s) (fst s')"
  using drainLoop_result [of sys s s'] by (auto simp: prefix_def)

lemma sendAndDrain_eq:
  "sendAndDrain sys cmd (lg, w) =
     (case sys_Write sys cmd w of
        ((n, Some err), w1) \<Rightarrow> Some (Some err, (lg @ [Write cmd], w1))
      | ((n, None), w1) \<Rightarrow>
          if n \<noteq> length cmd
          then Some (Some (shortWrite n (length cmd)), (lg @ [Write cmd], w1))
          else
            (case sys_SetReadDeadline sys w1 of
               (Some err, w2) \<Rightarrow> Some (Some err, (lg @ [Write cmd, SetReadDeadline], w2))
             | (None, w2) \<Rightarrow>
                 (case drainLoop sys (lg @ [Write cmd, SetReadDeadline], w2) of
                    None \<Rightarrow> None
                  | Some s3 \<Rightarrow> Some (None, s3))))"
proof -
  obtain n we w1 where wr: "sys_Write sys cmd w = ((n, we), w1)" by (metis prod.exhaust)
  obtain de w2 where dl: "sys_SetReadDeadline sys w1 = (de, w2)" by (metis prod.exhaust)
  show ?thesis
    by (cases we; cases de) (simp_all add: sendAndDrain_def call_eq wr dl)
qed

lemma closeConn_eq: "closeConn sys (lg, w) = (lg @ [CloseConn], snd (sys_CloseConn sys w))"
  by (simp add: closeConn_def call_eq)

lemma sendAndDrain_log:
  assumes "sendAndDrain sys cmd s = Some (e, s')"
  shows "prefix (fst s @ [Write cmd]) (fst s')"
proof -
  obtain lg w where s: "s = (lg, w)" by (cases s)
  obtain n we w1 where wr: "sys_Write sys cmd w = ((n, we), w1)" by (metis prod.exhaust)
  show ?thesis
  proof (cases "we = None \<and> n = length cmd")
    case False
    then show ?thesis
      using assms by (cases we) (auto simp: s sendAndDrain_eq wr split: if_splits)
  next
    case True
    obtain de w2 where dl: "sys_SetReadDeadline sys w1 = (de, w2)" by (metis prod.exhaust)
    show ?thesis
    proof (cases de)
      case (Some err)
      then show ?thesis
        using assms True by (auto simp: s sendAndDrain_eq wr dl prefix_def)
    next
      case None
      then have "drainLoop sys (lg @ [Write cmd, SetReadDeadline], w2) = Some s'"
        using assms True by (auto simp: s sendAndDrain_eq wr dl split: option.splits)
      from drainLoop_log [OF this] show ?thesis
        by (auto simp: s prefix_def)
    qed
  qed
qed

lemma Screenshot_dials:
  assumes "Screenshot sys q (lg, w) = Some (r, s')"
  shows "prefix (lg @ [Dial ''unix'' (monitorSockFile q)]) (fst s')"
proof -
  let ?d = "lg @ [Dial ''unix'' (monitorSockFile q)]"
  have cc: "prefix ?d (fst s2) \<Longrightarrow> prefix ?d (fst (closeConn sys s2))" for s2
    by (cases s2) (auto simp: closeConn_eq prefix_def)
  have sd: "sendAndDrain sys cmd s2 = Some (e, s3) \<Longrightarrow> prefix ?d (fst s2) \<Longrightarrow> prefix ?d (fst s3)"
    for cmd s2 e s3
    using sendAndDrain_log [of sys cmd s2 e s3] by (auto simp: prefix_def)
  obtain de w1 where di: "sys_Dial sys ''unix'' (monitorSockFile q) w = (de, w1)"
    by (metis prod.exhaust)
  show ?thesis
  proof (cases de)
    case (Some err)
    then show ?thesis
      using assms by (auto simp: Screenshot_def call_eq di)
  next
    case None
    obtain tr w2 where ct: "sys_CreateTemp sys [] ''qemu-screenshot-*.png'' w1 = (tr, w2)"
      by (metis prod.exhaust)
    show ?thesis
    proof (cases tr)
      case (Inl err)
      then have "s' = closeConn sys (?d @ [CreateTemp [] ''qemu-screenshot-*.png''], w2)"
        using assms None by (auto simp: Screenshot_def call_eq di ct)
      then show ?thesis
        by (simp add: closeConn_eq)
    next
      case (Inr fName)
      let ?s4 = "(?d @ [CreateTemp [] ''qemu-screenshot-*.png'', CloseFile fName, Remove fName],
                  snd (sys_Remove sys fName (snd (sys_CloseFile sys fName w2))))"
      let ?cmd = "''screendump '' @ fName @ [CHR 0x0D, CHR 0x0A]"
      have body: "Screenshot sys q (lg, w) =
          (case sendAndDrain sys ?cmd ?s4 of
             None \<Rightarrow> None
           | Some (Some err, s5) \<Rightarrow> Some (([], Some err), closeConn sys s5)
           | Some (None, s5) \<Rightarrow> Some ((fName, None), closeConn sys s5))"
        using None Inr by (simp add: Screenshot_def call_eq di ct Let_def)
      obtain e s5 where sa: "sendAndDrain sys ?cmd ?s4 = Some (e, s5)" and s': "s' = closeConn sys s5"
        using assms unfolding body by (auto split: option.splits)
      have "prefix ?d (fst s5)"
        by (rule sd [OF sa]) simp
      then show ?thesis
        unfolding s' by (rule cc)
    qed
  qed
qed

lemma DetachCD_dials:
  assumes "DetachCD sys q (lg, w) = Some (r, s')"
  shows "prefix (lg @ [Dial ''unix'' (monitorSockFile q)]) (fst s')"
proof -
  let ?d = "lg @ [Dial ''unix'' (monitorSockFile q)]"
  obtain de w1 where di: "sys_Dial sys ''unix'' (monitorSockFile q) w = (de, w1)"
    by (metis prod.exhaust)
  show ?thesis
  proof (cases de)
    case (Some err)
    then show ?thesis
      using assms by (auto simp: DetachCD_def call_eq di)
  next
    case None
    let ?cmd = "''eject -f ide0-cd0'' @ [CHR 0x0D, CHR 0x0A]"
    have body: "DetachCD sys q (lg, w) =
          (case sendAndDrain sys ?cmd (?d, w1) of
             None \<Rightarrow> None
           | Some (err, s2) \<Rightarrow> Some (err, closeConn sys s2))"
      using None by (simp add: DetachCD_def call_eq di Let_def)
    obtain e s2 where sa: "sendAndDrain sys ?cmd (?d, w1) = Some (e, s2)" and s': "s' = closeConn sys s2"
      using assms unfolding body by (auto split: option.splits)
    have "prefix ?d (fst s2)"
      using sendAndDrain_log [OF sa] by (auto simp: prefix_def)
    then show ?thesis
      unfolding s' by (cases s2) (auto simp: closeConn_eq prefix_def)
  qed
qed

lemma createOpts_monitor:
  "createOpts q ! 6 = ''-monitor'' \<and>
   createOpts q ! 7 = ''unix:'' @ monitorSockFile q @ '',server,nowait''"
  by (simp add: createOpts_def Let_def nth_append)

lemma hd_of_prefix: "prefix [x] ys \<Longrightarrow> hd ys = x"
  by (auto simp: prefix_def)

text \<open>
  C5. The path of the monitor socket is \<open>path.Join\<close> of the state directory
  and the fixed name \<open>qemu-monitor.sock\<close>; for a state directory in clean form, other
  than \<open>/\<close> and \<open>.\<close>, that is the state directory followed by \<open>/qemu-monitor.sock\<close>.
  \<open>Create\<close> passes this path after \<open>-monitor\<close>, and the first thing that \<open>Screenshot\<close>
  and \<open>DetachCD\<close> do is to dial it.
\<close>

theorem monitorSockFile_derivation:
  "monitorSockFile q = path_Join [StateDir (machineConfig q), ''qemu-monitor.sock'']
   \<and> (path_Clean (StateDir (machineConfig q)) = StateDir (machineConfig q)
        \<and> StateDir (machineConfig q) \<noteq> ''/'' \<and> StateDir (machineConfig q) \<noteq> ''.''
      \<longrightarrow> monitorSockFile q = StateDir (machineConfig q) @ ''/qemu-monitor.sock'')
   \<and> createOpts q ! 6 = ''-monitor''
   \<and> createOpts q ! 7 = ''unix:'' @ monitorSockFile q @ '',server,nowait''
   \<and> (\<forall>r s'. Screenshot sys q ([], w) = Some (r, s')
          \<longrightarrow> hd (fst s') = Dial ''unix'' (monitorSockFile q))
   \<and> (\<forall>r s'. DetachCD sys q ([], w) = Some (r, s')
          \<longrightarrow> hd (fst s') = Dial ''unix'' (monitorSockFile q))"
proof (intro conjI allI impI)
  show "monitorSockFile q = path_Join [StateDir (machineConfig q), ''qemu-monitor.sock'']"
    by (simp add: monitorSockFile_def)
next
  assume a: "path_Clean (StateDir (machineConfig q)) = StateDir (machineConfig q)
        \<and> StateDir (machineConfig q) \<noteq> ''/'' \<and> StateDir (machineConfig q) \<noteq> ''.''"
  have "path_Join [StateDir (machineConfig q), ''qemu-monitor.sock''] =
          StateDir (machineConfig q) @ ''/'' @ ''qemu-monitor.sock''"
    using a by (intro path_Join_clean_dir) simp_all
  then show "monitorSockFile q = StateDir (machineConfig q) @ ''/qemu-monitor.sock''"
    by (simp add: monitorSockFile_def)
next
  show "createOpts q ! 6 = ''-monitor''"
    using createOpts_monitor [of q] by simp
next
  show "createOpts q ! 7 = ''unix:'' @ monitorSockFile q @ '',server,nowait''"
    using createOpts_monitor [of q] by simp
next
  fix r s'
  assume "Screenshot sys q ([], w) = Some (r, s')"
  from Screenshot_dials [OF this] show "hd (fst s') = Dial ''unix'' (monitorSockFile q)"
    by (simp add: hd_of_prefix)
next
  fix r s'
  assume "DetachCD sys q ([], w) = Some (r, s')"
  from DetachCD_dials [OF this] show "hd (fst s') = Dial ''unix'' (monitorSockFile q)"
    by (simp add: hd_of_prefix)
qed

lemma ex_Screenshot:
  "Screenshot exSys (exQEMU exConfig) ([], exWorld0) =
     Some ((''/tmp/qemu-screenshot-42.png'', None),
           ([Dial ''unix'' ''/tmp/vm1/qemu-monitor.sock'',
             CreateTemp [] ''qemu-screenshot-*.png'',
             CloseFile ''/tmp/qemu-screenshot-42.png'',
             Remove ''/tmp/qemu-screenshot-42.png'',
             Write (''screendump /tmp/qemu-screenshot-42.png'' @ [CHR 0x0D, CHR 0x0A]),
             SetReadDeadline, Read, Read, Read, CloseConn],
            exWorld0\<lparr>pending := 0\<rparr>))"
  by code_simp

lemma ex_DetachCD:
  "DetachCD exSys (exQEMU exConfig) ([], exWorld0) =
     Some (None,
           ([Dial ''unix'' ''/tmp/vm1/qemu-monitor.sock'',
             Write (''eject -f ide0-cd0'' @ [CHR 0x0D, CHR 0x0A]),
             SetReadDeadline, Read, Read, Read, CloseConn],
            exWorld0\<lparr>pending := 0\<rparr>))"
  by code_simp

lemma ex_sock: "monitorSockFile (exQEMU exConfig) = ''/tmp/vm1/qemu-monitor.sock''"
  by code_simp

lemma ex_statedir: "StateDir (machineConfig (exQEMU exConfig)) = ''/tmp/vm1''"
  by (simp add: exQEMU_def exConfig_def)

lemma ex_statedir_clean: "path_Clean ''/tmp/vm1'' = ''/tmp/vm1''"
  by code_simp

theorem monitorSockFile_derivation_witness:
  "path_Clean (StateDir (machineConfig (exQEMU exConfig))) = StateDir (machineConfig (exQEMU exConfig)) \<and>
   StateDir (machineConfig (exQEMU exConfig)) = ''/tmp/vm1'' \<and>
   monitorSockFile (exQEMU exConfig) = ''/tmp/vm1'' @ ''/qemu-monitor.sock'' \<and>
   createOpts (exQEMU exConfig) ! 7 = ''unix:/tmp/vm1/qemu-monitor.sock,server,nowait'' \<and>
   map_option (\<lambda>r. hd (fst (snd r))) (Screenshot exSys (exQEMU exConfig) ([], exWorld0)) =
     Some (Dial ''unix'' ''/tmp/vm1/qemu-monitor.sock'') \<and>
   map_option (\<lambda>r. hd (fst (snd r))) (DetachCD exSys (exQEMU exConfig) ([], exWorld0)) =
     Some (Dial ''unix'' ''/tmp/vm1/qemu-monitor.sock'')"
proof -
  note t = monitorSockFile_derivation [of "exQEMU exConfig" exSys exWorld0]
  have c: "path_Clean (StateDir (machineConfig (exQEMU exConfig))) = StateDir (machineConfig (exQEMU exConfig))"
    by (simp add: ex_statedir ex_statedir_clean)
  have m: "monitorSockFile (exQEMU exConfig) = ''/tmp/vm1'' @ ''/qemu-monitor.sock''"
  proof -
    have "path_Clean (StateDir (machineConfig (exQEMU exConfig))) = StateDir (machineConfig (exQEMU exConfig))
        \<and> StateDir (machineConfig (exQEMU exConfig)) \<noteq> ''/''
        \<and> StateDir (machineConfig (exQEMU exConfig)) \<noteq> ''.''"
      by (simp add: ex_statedir ex_statedir_clean)
    from t [THEN conjunct2, THEN conjunct1, THEN mp, OF this] show ?thesis
      by (simp add: ex_statedir)
  qed
  have o: "createOpts (exQEMU exConfig) ! 7 = ''unix:/tmp/vm1/qemu-monitor.sock,server,nowait''"
    using t [THEN conjunct2, THEN conjunct2, THEN conjunct2, THEN conjunct1] m by simp
  have s: "map_option (\<lambda>r. hd (fst (snd r))) (Screenshot exSys (exQEMU exConfig) ([], exWorld0)) =
     Some (Dial ''unix'' ''/tmp/vm1/qemu-monitor.sock'')"
    using t m by (simp add: ex_Screenshot)
  have d: "map_option (\<lambda>r. hd (fst (snd r))) (DetachCD exSys (exQEMU exConfig) ([], exWorld0)) =
     Some (Dial ''unix'' ''/tmp/vm1/qemu-monitor.sock'')"
    using t m by (simp add: ex_DetachCD)
  show ?thesis using c m o s d ex_statedir by simp
qed

text \<open>For the state directory \<open>/tmp/vm1\<close> the socket is not \<open>/tmp/vm1/monitor.sock\<close>.\<close>

theorem monitorSockFile_name_counterexample:
  "StateDir (machineConfig (exQEMU exConfig)) = ''/tmp/vm1'' \<and>
   monitorSockFile (exQEMU exConfig) = ''/tmp/vm1/qemu-monitor.sock'' \<and>
   monitorSockFile (exQEMU exConfig) \<noteq> ''/tmp/vm1/monitor.sock''"
  by (simp add: ex_sock ex_statedir)

section \<open>The monitor commands\<close>

lemma DetachCD_after_dial:
  assumes "sys_Dial sys ''unix'' (monitorSockFile q) w = (None, w1)"
  shows "DetachCD sys q (lg, w) =
          (case sendAndDrain sys ejectCmd (lg @ [Dial ''unix'' (monitorSockFile q)], w1) of
             None \<Rightarrow> None
           | Some (err, s2) \<Rightarrow> Some (err, closeConn sys s2))"
  using assms by (simp add: DetachCD_def call_eq Let_def ejectCmd_def)

lemma Screenshot_after_temp:
  assumes "sys_Dial sys ''unix'' (monitorSockFile q) w = (None, w1)"
      and "sys_CreateTemp sys [] ''qemu-screenshot-*.png'' w1 = (Inr fName, w2)"
  shows "Screenshot sys q (lg, w) =
          (case sendAndDrain sys (screendumpCmd fName)
                  (lg @ [Dial ''unix'' (monitorSockFile q),
                         CreateTemp [] ''qemu-screenshot-*.png'',
                         CloseFile fName, Remove fName],
                   snd (sys_Remove sys fName (snd (sys_CloseFile sys fName w2)))) of
             None \<Rightarrow> None
           | Some (Some err, s5) \<Rightarrow> Some (([], Some err), closeConn sys s5)
           | Some (None, s5) \<Rightarrow> Some ((fName, None), closeConn sys s5))"
  using assms by (simp add: Screenshot_def call_eq Let_def screendumpCmd_def)

lemma sendAndDrain_short:
  assumes "sys_Write sys cmd w = ((n, None), w1)" and "n \<noteq> length cmd"
  shows "sendAndDrain sys cmd (lg, w) =
           Some (Some (shortWrite n (length cmd)), (lg @ [Write cmd], w1))"
  using assms by (simp add: sendAndDrain_eq)

lemma sendAndDrain_write_error:
  assumes "sys_Write sys cmd w = ((n, Some err), w1)"
  shows "sendAndDrain sys cmd (lg, w) = Some (Some err, (lg @ [Write cmd], w1))"
  using assms by (simp add: sendAndDrain_eq)

lemma sendAndDrain_drained:
  assumes "sys_Write sys cmd w = ((length cmd, None), w1)"
      and "sys_SetReadDeadline sys w1 = (None, w2)"
      and "firstErrorAt sys w2 k"
  shows "sendAndDrain sys cmd (lg, w) =
           Some (None, (lg @ [Write cmd, SetReadDeadline] @ replicate (Suc k) Read,
                        afterReads sys (Suc k) w2))"
  using assms drainLoop_terminates [OF assms(3), of "lg @ [Write cmd, SetReadDeadline]"]
  by (simp add: sendAndDrain_eq)

lemma length_ejectCmd: "length ejectCmd = 19"
  by (simp add: ejectCmd_def)

lemma itoa_19: "itoa 19 = ''19''"
  by (simp add: itoa.simps digit_def)

text \<open>
  C6. For \<open>DetachCD\<close> and for \<open>Screenshot\<close>: when the write of the command
  returns no error and a byte count other than the length of the command, the result is
  the error that reports the count and the length; when the write returns an error, the
  result is that error as it is. In both cases the connection is closed next: no read
  deadline is set and nothing is read.
\<close>

theorem short_write_fails:
  "(sys_Dial sys ''unix'' (monitorSockFile q) w = (None, w1) \<and>
    sys_Write sys ejectCmd w1 = ((n, None), w2) \<and> n \<noteq> length ejectCmd
    \<longrightarrow> DetachCD sys q ([], w) =
          Some (Some (''didn't send the full command ('' @ itoa n @ '' out of 19 bytes)''),
                ([Dial ''unix'' (monitorSockFile q), Write ejectCmd, CloseConn],
                 snd (sys_CloseConn sys w2))))
 \<and> (sys_Dial sys ''unix'' (monitorSockFile q) w = (None, w1) \<and>
    sys_Write sys ejectCmd w1 = ((n, Some err), w2)
    \<longrightarrow> DetachCD sys q ([], w) =
          Some (Some err,
                ([Dial ''unix'' (monitorSockFile q), Write ejectCmd, CloseConn],
                 snd (sys_CloseConn sys w2))))
 \<and> (sys_Dial sys ''unix'' (monitorSockFile q) w = (None, w1) \<and>
    sys_CreateTemp sys [] ''qemu-screenshot-*.png'' w1 = (Inr fName, w3) \<and>
    sys_Write sys (screendumpCmd fName)
      (snd (sys_Remove sys fName (snd (sys_CloseFile sys fName w3)))) = ((n, None), w4) \<and>
    n \<noteq> length (screendumpCmd fName)
    \<longrightarrow> Screenshot sys q ([], w) =
          Some (([], Some (''didn't send the full command ('' @ itoa n @ '' out of '' @
                            itoa (length (screendumpCmd fName)) @ '' bytes)'')),
                ([Dial ''unix'' (monitorSockFile q), CreateTemp [] ''qemu-screenshot-*.png'',
                  CloseFile fName, Remove fName, Write (screendumpCmd fName), CloseConn],
                 snd (sys_CloseConn sys w4))))
 \<and> (sys_Dial sys ''unix'' (monitorSockFile q) w = (None, w1) \<and>
    sys_CreateTemp sys [] ''qemu-screenshot-*.png'' w1 = (Inr fName, w3) \<and>
    sys_Write sys (screendumpCmd fName)
      (snd (sys_Remove sys fName (snd (sys_CloseFile sys fName w3)))) = ((n, Some err), w4)
    \<longrightarrow> Screenshot sys q ([], w) =
          Some (([], Some err),
                ([Dial ''unix'' (monitorSockFile q), CreateTemp [] ''qemu-screenshot-*.png'',
                  CloseFile fName, Remove fName, Write (screendumpCmd fName), CloseConn],
                 snd (sys_CloseConn sys w4))))"
proof (intro conjI impI)
  assume a: "sys_Dial sys ''unix'' (monitorSockFile q) w = (None, w1) \<and>
    sys_Write sys ejectCmd w1 = ((n, None), w2) \<and> n \<noteq> length ejectCmd"
  then have d: "sys_Dial sys ''unix'' (monitorSockFile q) w = (None, w1)"
    and wr: "sys_Write sys ejectCmd w1 = ((n, None), w2)" and n: "n \<noteq> length ejectCmd"
    by simp_all
  show "DetachCD sys q ([], w) =
          Some (Some (''didn't send the full command ('' @ itoa n @ '' out of 19 bytes)''),
                ([Dial ''unix'' (monitorSockFile q), Write ejectCmd, CloseConn],
                 snd (sys_CloseConn sys w2)))"
    unfolding DetachCD_after_dial [OF d] sendAndDrain_short [OF wr n]
    by (simp add: closeConn_eq shortWrite_def length_ejectCmd itoa_19)
next
  assume a: "sys_Dial sys ''unix'' (monitorSockFile q) w = (None, w1) \<and>
    sys_Write sys ejectCmd w1 = ((n, Some err), w2)"
  then have d: "sys_Dial sys ''unix'' (monitorSockFile q) w = (None, w1)"
    and wr: "sys_Write sys ejectCmd w1 = ((n, Some err), w2)"
    by simp_all
  show "DetachCD sys q ([], w) =
          Some (Some err,
                ([Dial ''unix'' (monitorSockFile q), Write ejectCmd, CloseConn],
                 snd (sys_CloseConn sys w2)))"
    unfolding DetachCD_after_dial [OF d] sendAndDrain_write_error [OF wr]
    by (simp add: closeConn_eq)
next
  assume a: "sys_Dial sys ''unix'' (monitorSockFile q) w = (None, w1) \<and>
    sys_CreateTemp sys [] ''qemu-screenshot-*.png'' w1 = (Inr fName, w3) \<and>
    sys_Write sys (screendumpCmd fName)
      (snd (sys_Remove sys fName (snd (sys_CloseFile sys fName w3)))) = ((n, None), w4) \<and>
    n \<noteq> length (screendumpCmd fName)"
  then have d: "sys_Dial sys ''unix'' (monitorSockFile q) w = (None, w1)"
    and t: "sys_CreateTemp sys [] ''qemu-screenshot-*.png'' w1 = (Inr fName, w3)"
    and wr: "sys_Write sys (screendumpCmd fName)
      (snd (sys_Remove sys fName (snd (sys_CloseFile sys fName w3)))) = ((n, None), w4)"
    and n: "n \<noteq> length (screendumpCmd fName)"
    by simp_all
  show "Screenshot sys q ([], w) =
          Some (([], Some (''didn't send the full command ('' @ itoa n @ '' out of '' @
                            itoa (length (screendumpCmd fName)) @ '' bytes)'')),
                ([Dial ''unix'' (monitorSockFile q), CreateTemp [] ''qemu-screenshot-*.png'',
                  CloseFile fName, Remove fName, Write (screendumpCmd fName), CloseConn],
                 snd (sys_CloseConn sys w4)))"
    unfolding Screenshot_after_temp [OF d t] sendAndDrain_short [OF wr n]
    by (simp add: closeConn_eq shortWrite_def)
next
  assume a: "sys_Dial sys ''unix'' (monitorSockFile q) w = (None, w1) \<and>
    sys_CreateTemp sys [] ''qemu-screenshot-*.png'' w1 = (Inr fName, w3) \<and>
    sys_Write sys (screendumpCmd fName)
      (snd (sys_Remove sys fName (snd (sys_CloseFile sys fName w3)))) = ((n, Some err), w4)"
  then have d: "sys_Dial sys ''unix'' (monitorSockFile q) w = (None, w1)"
    and t: "sys_CreateTemp sys [] ''qemu-screenshot-*.png'' w1 = (Inr fName, w3)"
    and wr: "sys_Write sys (screendumpCmd fName)
      (snd (sys_Remove sys fName (snd (sys_CloseFile sys fName w3)))) = ((n, Some err), w4)"
    by simp_all
  show "Screenshot sys q ([], w) =
          Some (([], Some err),
                ([Dial ''unix'' (monitorSockFile q), CreateTemp [] ''qemu-screenshot-*.png'',
                  CloseFile fName, Remove fName, Write (screendumpCmd fName), CloseConn],
                 snd (sys_CloseConn sys w4)))"
    unfolding Screenshot_after_temp [OF d t] sendAndDrain_write_error [OF wr]
    by (simp add: closeConn_eq)
qed

text \<open>
  C7. For \<open>DetachCD\<close> and for \<open>Screenshot\<close>: when the command has been written in full
  and the read deadline has been set, and read number \<open>k\<close> is the first to return an error,
  the drain loop ends with that read, and the command returns without an error;
  \<open>Screenshot\<close> returns the name of the temporary file.
\<close>

theorem drain_error_is_success:
  "(sys_Dial sys ''unix'' (monitorSockFile q) w = (None, w1) \<and>
    sys_Write sys ejectCmd w1 = ((length ejectCmd, None), w2) \<and>
    sys_SetReadDeadline sys w2 = (None, w3) \<and>
    firstErrorAt sys w3 k
    \<longrightarrow> DetachCD sys q ([], w) =
          Some (None,
                ([Dial ''unix'' (monitorSockFile q), Write ejectCmd, SetReadDeadline] @
                 replicate (Suc k) Read @ [CloseConn],
                 snd (sys_CloseConn sys (afterReads sys (Suc k) w3)))))
 \<and> (sys_Dial sys ''unix'' (monitorSockFile q) w = (None, w1) \<and>
    sys_CreateTemp sys [] ''qemu-screenshot-*.png'' w1 = (Inr fName, w2) \<and>
    sys_Write sys (screendumpCmd fName)
      (snd (sys_Remove sys fName (snd (sys_CloseFile sys fName w2)))) =
        ((length (screendumpCmd fName), None), w4) \<and>
    sys_SetReadDeadline sys w4 = (None, w5) \<and>
    firstErrorAt sys w5 k
    \<longrightarrow> Screenshot sys q ([], w) =
          Some ((fName, None),
                ([Dial ''unix'' (monitorSockFile q), CreateTemp [] ''qemu-screenshot-*.png'',
                  CloseFile fName, Remove fName, Write (screendumpCmd fName), SetReadDeadline] @
                 replicate (Suc k) Read @ [CloseConn],
                 snd (sys_CloseConn sys (afterReads sys (Suc k) w5)))))"
proof (intro conjI impI)
  assume "sys_Dial sys ''unix'' (monitorSockFile q) w = (None, w1) \<and>
    sys_Write sys ejectCmd w1 = ((length ejectCmd, None), w2) \<and>
    sys_SetReadDeadline sys w2 = (None, w3) \<and>
    firstErrorAt sys w3 k"
  then have d: "sys_Dial sys ''unix'' (monitorSockFile q) w = (None, w1)"
    and wr: "sys_Write sys ejectCmd w1 = ((length ejectCmd, None), w2)"
    and dl: "sys_SetReadDeadline sys w2 = (None, w3)"
    and fe: "firstErrorAt sys w3 k"
    by simp_all
  show "DetachCD sys q ([], w) =
          Some (None,
                ([Dial ''unix'' (monitorSockFile q), Write ejectCmd, SetReadDeadline] @
                 replicate (Suc k) Read @ [CloseConn],
                 snd (sys_CloseConn sys (afterReads sys (Suc k) w3))))"
    unfolding DetachCD_after_dial [OF d] sendAndDrain_drained [OF wr dl fe]
    by (simp add: closeConn_eq)
next
  assume "sys_Dial sys ''unix'' (monitorSockFile q) w = (None, w1) \<and>
    sys_CreateTemp sys [] ''qemu-screenshot-*.png'' w1 = (Inr fName, w2) \<and>
    sys_Write sys (screendumpCmd fName)
      (snd (sys_Remove sys fName (snd (sys_CloseFile sys fName w2)))) =
        ((length (screendumpCmd fName), None), w4) \<and>
    sys_SetReadDeadline sys w4 = (None, w5) \<and>
    firstErrorAt sys w5 k"
  then have d: "sys_Dial sys ''unix'' (monitorSockFile q) w = (None, w1)"
    and t: "sys_CreateTemp sys [] ''qemu-screenshot-*.png'' w1 = (Inr fName, w2)"
    and wr: "sys_Write sys (screendumpCmd fName)
      (snd (sys_Remove sys fName (snd (sys_CloseFile sys fName w2)))) =
        ((length (screendumpCmd fName), None), w4)"
    and dl: "sys_SetReadDeadline sys w4 = (None, w5)"
    and fe: "firstErrorAt sys w5 k"
    by simp_all
  show "Screenshot sys q ([], w) =
          Some ((fName, None),
                ([Dial ''unix'' (monitorSockFile q), CreateTemp [] ''qemu-screenshot-*.png'',
                  CloseFile fName, Remove fName, Write (screendumpCmd fName), SetReadDeadline] @
                 replicate (Suc k) Read @ [CloseConn],
                 snd (sys_CloseConn sys (afterReads sys (Suc k) w5))))"
    unfolding Screenshot_after_temp [OF d t] sendAndDrain_drained [OF wr dl fe]
    by (simp add: closeConn_eq)
qed

lemma ex_dial:
  "sys_Dial exSys n a w = (None, w)" "sys_Dial exShortSys n a w = (None, w)"
  "sys_Dial exBrokenSys n a w = (None, w)"
  by (simp_all add: exSys_def exShortSys_def exBrokenSys_def)

lemma ex_temp:
  "sys_CreateTemp exSys d p w = (Inr ''/tmp/qemu-screenshot-42.png'', w)"
  "sys_CreateTemp exShortSys d p w = (Inr ''/tmp/qemu-screenshot-42.png'', w)"
  "sys_CreateTemp exBrokenSys d p w = (Inr ''/tmp/qemu-screenshot-42.png'', w)"
  by (simp_all add: exSys_def exShortSys_def exBrokenSys_def)

lemma ex_file_ops:
  "snd (sys_Remove exSys f (snd (sys_CloseFile exSys g w))) = w"
  "snd (sys_Remove exShortSys f (snd (sys_CloseFile exShortSys g w))) = w"
  "snd (sys_Remove exBrokenSys f (snd (sys_CloseFile exBrokenSys g w))) = w"
  by (simp_all add: exSys_def exShortSys_def exBrokenSys_def)

lemma ex_write:
  "sys_Write exSys c w = ((length c, None), w)"
  "sys_Write exShortSys c w = ((3, None), w)"
  "sys_Write exBrokenSys c w = ((3, Some ''write: broken pipe''), w)"
  by (simp_all add: exSys_def exShortSys_def exBrokenSys_def)

lemma ex_close:
  "snd (sys_CloseConn exSys w) = w" "snd (sys_CloseConn exShortSys w) = w"
  "snd (sys_CloseConn exBrokenSys w) = w"
  by (simp_all add: exSys_def exShortSys_def exBrokenSys_def)

lemma ex_deadline: "sys_SetReadDeadline exSys w = (None, w)"
  by (simp add: exSys_def)

lemma ex_reads: "firstErrorAt exSys exWorld0 2"
  by (simp add: exSys_def exWorld0_def numeral_2_eq_2)

lemma ex_after_reads: "afterReads exSys (Suc 2) exWorld0 = exWorld0\<lparr>pending := 0\<rparr>"
  by (simp add: exSys_def exWorld0_def numeral_2_eq_2)

lemma length_ex_screendump: "length (screendumpCmd ''/tmp/qemu-screenshot-42.png'') = 40"
  by (simp add: screendumpCmd_def)

lemma itoa_3_40: "itoa 3 = ''3''" "itoa 40 = ''40''"
  by (simp_all add: itoa.simps digit_def)

theorem short_write_fails_witness:
  "sys_Write exShortSys ejectCmd exWorld0 = ((3, None), exWorld0) \<and>
   3 \<noteq> length ejectCmd \<and>
   DetachCD exShortSys (exQEMU exConfig) ([], exWorld0) =
     Some (Some ''didn't send the full command (3 out of 19 bytes)'',
           ([Dial ''unix'' ''/tmp/vm1/qemu-monitor.sock'', Write ejectCmd, CloseConn], exWorld0)) \<and>
   sys_Write exBrokenSys ejectCmd exWorld0 = ((3, Some ''write: broken pipe''), exWorld0) \<and>
   DetachCD exBrokenSys (exQEMU exConfig) ([], exWorld0) =
     Some (Some ''write: broken pipe'',
           ([Dial ''unix'' ''/tmp/vm1/qemu-monitor.sock'', Write ejectCmd, CloseConn], exWorld0)) \<and>
   sys_Write exShortSys (screendumpCmd ''/tmp/qemu-screenshot-42.png'') exWorld0 = ((3, None), exWorld0) \<and>
   3 \<noteq> length (screendumpCmd ''/tmp/qemu-screenshot-42.png'') \<and>
   Screenshot exShortSys (exQEMU exConfig) ([], exWorld0) =
     Some (([], Some ''didn't send the full command (3 out of 40 bytes)''),
           ([Dial ''unix'' ''/tmp/vm1/qemu-monitor.sock'', CreateTemp [] ''qemu-screenshot-*.png'',
             CloseFile ''/tmp/qemu-screenshot-42.png'', Remove ''/tmp/qemu-screenshot-42.png'',
             Write (screendumpCmd ''/tmp/qemu-screenshot-42.png''), CloseConn], exWorld0)) \<and>
   Screenshot exBrokenSys (exQEMU exConfig) ([], exWorld0) =
     Some (([], Some ''write: broken pipe''),
           ([Dial ''unix'' ''/tmp/vm1/qemu-monitor.sock'', CreateTemp [] ''qemu-screenshot-*.png'',
             CloseFile ''/tmp/qemu-screenshot-42.png'', Remove ''/tmp/qemu-screenshot-42.png'',
             Write (screendumpCmd ''/tmp/qemu-screenshot-42.png''), CloseConn], exWorld0))"
proof -
  note t1 = short_write_fails
    [where sys = exShortSys and q = "exQEMU exConfig" and w = exWorld0 and ?w1.0 = exWorld0
       and ?w2.0 = exWorld0 and ?w3.0 = exWorld0 and ?w4.0 = exWorld0
       and n = 3 and fName = "''/tmp/qemu-screenshot-42.png''"]
  note t2 = short_write_fails
    [where sys = exBrokenSys and q = "exQEMU exConfig" and w = exWorld0 and ?w1.0 = exWorld0
       and ?w2.0 = exWorld0 and ?w3.0 = exWorld0 and ?w4.0 = exWorld0
       and n = 3 and err = "''write: broken pipe''" and fName = "''/tmp/qemu-screenshot-42.png''"]
  have a: "DetachCD exShortSys (exQEMU exConfig) ([], exWorld0) =
     Some (Some ''didn't send the full command (3 out of 19 bytes)'',
           ([Dial ''unix'' ''/tmp/vm1/qemu-monitor.sock'', Write ejectCmd, CloseConn], exWorld0))"
    using t1 [THEN conjunct1]
    by (simp add: ex_dial ex_write ex_close length_ejectCmd ex_sock itoa_3_40)
  have b: "DetachCD exBrokenSys (exQEMU exConfig) ([], exWorld0) =
     Some (Some ''write: broken pipe'',
           ([Dial ''unix'' ''/tmp/vm1/qemu-monitor.sock'', Write ejectCmd, CloseConn], exWorld0))"
    using t2 [THEN conjunct2, THEN conjunct1]
    by (simp add: ex_dial ex_write ex_close ex_sock)
  have c: "Screenshot exShortSys (exQEMU exConfig) ([], exWorld0) =
     Some (([], Some ''didn't send the full command (3 out of 40 bytes)''),
           ([Dial ''unix'' ''/tmp/vm1/qemu-monitor.sock'', CreateTemp [] ''qemu-screenshot-*.png'',
             CloseFile ''/tmp/qemu-screenshot-42.png'', Remove ''/tmp/qemu-screenshot-42.png'',
             Write (screendumpCmd ''/tmp/qemu-screenshot-42.png''), CloseConn], exWorld0))"
    using t1 [THEN conjunct2, THEN conjunct2, THEN conjunct1]
    by (simp add: ex_dial ex_temp ex_file_ops ex_write ex_close length_ex_screendump ex_sock itoa_3_40)
  have d: "Screenshot exBrokenSys (exQEMU exConfig) ([], exWorld0) =
     Some (([], Some ''write: broken pipe''),
           ([Dial ''unix'' ''/tmp/vm1/qemu-monitor.sock'', CreateTemp [] ''qemu-screenshot-*.png'',
             CloseFile ''/tmp/qemu-screenshot-42.png'', Remove ''/tmp/qemu-screenshot-42.png'',
             Write (screendumpCmd ''/tmp/qemu-screenshot-42.png''), CloseConn], exWorld0))"
    using t2 [THEN conjunct2, THEN conjunct2, THEN conjunct2]
    by (simp add: ex_dial ex_temp ex_file_ops ex_write ex_close ex_sock)
  show ?thesis
    using a b c d by (simp add: ex_write length_ejectCmd length_ex_screendump)
qed

text \<open>
  A write that takes 3 bytes of the command and returns the error \<open>write: broken pipe\<close>:
  both commands return this error, which has no byte counts in it.
\<close>

theorem short_write_raw_error_counterexample:
  "fst (sys_Write exBrokenSys ejectCmd exWorld0) = (3, Some ''write: broken pipe'') \<and>
   length ejectCmd = 19 \<and>
   ''write: broken pipe'' \<noteq> ''didn't send the full command (3 out of 19 bytes)'' \<and>
   DetachCD exBrokenSys (exQEMU exConfig) ([], exWorld0) =
     Some (Some ''write: broken pipe'',
           ([Dial ''unix'' ''/tmp/vm1/qemu-monitor.sock'', Write ejectCmd, CloseConn], exWorld0)) \<and>
   fst (sys_Write exBrokenSys (screendumpCmd ''/tmp/qemu-screenshot-42.png'') exWorld0) =
     (3, Some ''write: broken pipe'') \<and>
   length (screendumpCmd ''/tmp/qemu-screenshot-42.png'') = 40 \<and>
   Screenshot exBrokenSys (exQEMU exConfig) ([], exWorld0) =
     Some (([], Some ''write: broken pipe''),
           ([Dial ''unix'' ''/tmp/vm1/qemu-monitor.sock'', CreateTemp [] ''qemu-screenshot-*.png'',
             CloseFile ''/tmp/qemu-screenshot-42.png'', Remove ''/tmp/qemu-screenshot-42.png'',
             Write (screendumpCmd ''/tmp/qemu-screenshot-42.png''), CloseConn], exWorld0))"
proof -
  have d: "sys_Dial exBrokenSys ''unix'' (monitorSockFile (exQEMU exConfig)) exWorld0 = (None, exWorld0)"
    by (rule ex_dial)
  have t: "sys_CreateTemp exBrokenSys [] ''qemu-screenshot-*.png'' exWorld0 =
             (Inr ''/tmp/qemu-screenshot-42.png'', exWorld0)"
    by (rule ex_temp)
  have a: "DetachCD exBrokenSys (exQEMU exConfig) ([], exWorld0) =
     Some (Some ''write: broken pipe'',
           ([Dial ''unix'' ''/tmp/vm1/qemu-monitor.sock'', Write ejectCmd, CloseConn], exWorld0))"
    unfolding DetachCD_after_dial [OF d] sendAndDrain_write_error [OF ex_write(3)]
    by (simp add: closeConn_eq ex_close ex_sock)
  have b: "Screenshot exBrokenSys (exQEMU exConfig) ([], exWorld0) =
     Some (([], Some ''write: broken pipe''),
           ([Dial ''unix'' ''/tmp/vm1/qemu-monitor.sock'', CreateTemp [] ''qemu-screenshot-*.png'',
             CloseFile ''/tmp/qemu-screenshot-42.png'', Remove ''/tmp/qemu-screenshot-42.png'',
             Write (screendumpCmd ''/tmp/qemu-screenshot-42.png''), CloseConn], exWorld0))"
    unfolding Screenshot_after_temp [OF d t] ex_file_ops sendAndDrain_write_error [OF ex_write(3)]
    by (simp add: closeConn_eq ex_close ex_sock)
  show ?thesis
    using a b by (simp add: ex_write length_ejectCmd length_ex_screendump)
qed

theorem drain_error_is_success_witness:
  "sys_Write exSys ejectCmd exWorld0 = ((length ejectCmd, None), exWorld0) \<and>
   sys_SetReadDeadline exSys exWorld0 = (None, exWorld0) \<and>
   firstErrorAt exSys exWorld0 2 \<and>
   DetachCD exSys (exQEMU exConfig) ([], exWorld0) =
     Some (None,
           ([Dial ''unix'' ''/tmp/vm1/qemu-monitor.sock'', Write ejectCmd, SetReadDeadline,
             Read, Read, Read, CloseConn],
            exWorld0\<lparr>pending := 0\<rparr>)) \<and>
   Screenshot exSys (exQEMU exConfig) ([], exWorld0) =
     Some ((''/tmp/qemu-screenshot-42.png'', None),
           ([Dial ''unix'' ''/tmp/vm1/qemu-monitor.sock'', CreateTemp [] ''qemu-screenshot-*.png'',
             CloseFile ''/tmp/qemu-screenshot-42.png'', Remove ''/tmp/qemu-screenshot-42.png'',
             Write (screendumpCmd ''/tmp/qemu-screenshot-42.png''), SetReadDeadline,
             Read, Read, Read, CloseConn],
            exWorld0\<lparr>pending := 0\<rparr>))"
proof -
  note t = drain_error_is_success
    [where sys = exSys and q = "exQEMU exConfig" and w = exWorld0 and ?w1.0 = exWorld0
       and ?w2.0 = exWorld0 and ?w3.0 = exWorld0 and ?w4.0 = exWorld0 and ?w5.0 = exWorld0
       and k = 2 and fName = "''/tmp/qemu-screenshot-42.png''"]
  have r: "replicate (Suc 2) Read = [Read, Read, Read]"
    by (simp add: numeral_2_eq_2)
  have a: "DetachCD exSys (exQEMU exConfig) ([], exWorld0) =
     Some (None,
           ([Dial ''unix'' ''/tmp/vm1/qemu-monitor.sock'', Write ejectCmd, SetReadDeadline,
             Read, Read, Read, CloseConn],
            exWorld0\<lparr>pending := 0\<rparr>))"
    using t [THEN conjunct1] unfolding r ex_after_reads
    by (simp add: ex_dial ex_write ex_deadline ex_reads ex_close ex_sock)
  have b: "Screenshot exSys (exQEMU exConfig) ([], exWorld0) =
     Some ((''/tmp/qemu-screenshot-42.png'', None),
           ([Dial ''unix'' ''/tmp/vm1/qemu-monitor.sock'', CreateTemp [] ''qemu-screenshot-*.png'',
             CloseFile ''/tmp/qemu-screenshot-42.png'', Remove ''/tmp/qemu-screenshot-42.png'',
             Write (screendumpCmd ''/tmp/qemu-screenshot-42.png''), SetReadDeadline,
             Read, Read, Read, CloseConn],
            exWorld0\<lparr>pending := 0\<rparr>))"
    using t [THEN conjunct2] unfolding r ex_after_reads
    by (simp add: ex_dial ex_temp ex_file_ops ex_write ex_deadline ex_reads ex_close ex_sock)
  show ?thesis
    using a b by (simp add: ex_write ex_deadline ex_reads)
qed

section \<open>Finding the binary\<close>




















section \<open>Stop and Clean\<close>











end
